theory Spec2Isabelle
  imports Complex_Main "HOL-Library.AList" "HOL-Library.Sublist"
begin

section \<open>Python values and the builtins the scraper uses\<close>

text \<open>
  The scraper (\<^verbatim>\<open>scripts/markets.py\<close>, \<^verbatim>\<open>scripts/markets_baku.py\<close>) works on decoded
  JSON documents and builds Python dicts from them. One datatype holds both: \<open>PNone\<close> is
  \<^verbatim>\<open>None\<close>/\<^verbatim>\<open>null\<close>, a JSON object is a \<open>PDict\<close> (an association list in
  insertion order, keys distinct as in a Python dict, looked up with \<open>map_of\<close>).
  Python floats are modelled as exact rationals: binary rounding, overflow, infinities and
  NaN are not modelled. Strings are character lists.
\<close>

datatype pyval =
    PNone
  | PBool bool
  | PInt int
  | PFloat rat
  | PStr string
  | PList "pyval list"
  | PDict "(string \<times> pyval) list"

type_synonym pydict = "(string \<times> pyval) list"

datatype py_error =
    KeyError
  | TypeError
  | AttributeError
  | IndexError
  | ZeroDivisionError
  | ValueError
  | ConnectionError
  | Timeout
  | HTTPError
  | JSONDecodeError

text \<open>Sequencing of fallible steps: the first raised error ends the computation.\<close>

definition bindE :: "'e + 'a \<Rightarrow> ('a \<Rightarrow> 'e + 'b) \<Rightarrow> 'e + 'b" where
  "bindE m f = (case m of Inl e \<Rightarrow> Inl e | Inr x \<Rightarrow> f x)"

fun mapE :: "('a \<Rightarrow> 'e + 'b) \<Rightarrow> 'a list \<Rightarrow> 'e + 'b list" where
  "mapE f [] = Inr []"
| "mapE f (x # xs) = bindE (f x) (\<lambda>y. bindE (mapE f xs) (\<lambda>ys. Inr (y # ys)))"

text \<open>Truth value testing (\<^verbatim>\<open>if x\<close>, \<^verbatim>\<open>not x\<close>, \<^verbatim>\<open>x and y\<close>).\<close>

fun truthy :: "pyval \<Rightarrow> bool" where
  "truthy PNone = False"
| "truthy (PBool b) = b"
| "truthy (PInt i) = (i \<noteq> 0)"
| "truthy (PFloat r) = (r \<noteq> 0)"
| "truthy (PStr s) = (s \<noteq> [])"
| "truthy (PList xs) = (xs \<noteq> [])"
| "truthy (PDict kvs) = (kvs \<noteq> [])"

text \<open>\<^verbatim>\<open>d.get(k, default)\<close>: only a dict has the method.\<close>

definition dget :: "pydict \<Rightarrow> string \<Rightarrow> pyval \<Rightarrow> pyval" where
  "dget kvs k d = (case map_of kvs k of Some v \<Rightarrow> v | None \<Rightarrow> d)"

fun py_get :: "pyval \<Rightarrow> string \<Rightarrow> pyval \<Rightarrow> py_error + pyval" where
  "py_get (PDict kvs) k d = Inr (dget kvs k d)"
| "py_get _ k d = Inl AttributeError"

text \<open>\<^verbatim>\<open>x['k']\<close> with a string key, and \<^verbatim>\<open>x['k'] = v\<close>.\<close>

fun py_getitem_str :: "pyval \<Rightarrow> string \<Rightarrow> py_error + pyval" where
  "py_getitem_str (PDict kvs) k = (case map_of kvs k of Some v \<Rightarrow> Inr v | None \<Rightarrow> Inl KeyError)"
| "py_getitem_str _ k = Inl TypeError"

fun py_setitem_str :: "pyval \<Rightarrow> string \<Rightarrow> pyval \<Rightarrow> py_error + pyval" where
  "py_setitem_str (PDict kvs) k v = Inr (PDict (AList.update k v kvs))"
| "py_setitem_str _ k v = Inl TypeError"

text \<open>\<^verbatim>\<open>x[i]\<close> with a non-negative integer index. The keys of a decoded JSON object are
  strings, so an integer key is never found.\<close>

fun py_index :: "pyval \<Rightarrow> nat \<Rightarrow> py_error + pyval" where
  "py_index (PList xs) i = (if i < length xs then Inr (xs ! i) else Inl IndexError)"
| "py_index (PStr s) i = (if i < length s then Inr (PStr [s ! i]) else Inl IndexError)"
| "py_index (PDict kvs) i = Inl KeyError"
| "py_index _ i = Inl TypeError"

text \<open>Iteration (\<^verbatim>\<open>for x in v\<close>): a list yields its elements, a string its characters,
  a dict its keys; anything else is not iterable.\<close>

fun py_iter :: "pyval \<Rightarrow> py_error + pyval list" where
  "py_iter (PList xs) = Inr xs"
| "py_iter (PStr s) = Inr (map (\<lambda>c. PStr [c]) s)"
| "py_iter (PDict kvs) = Inr (map (\<lambda>kv. PStr (fst kv)) kvs)"
| "py_iter _ = Inl TypeError"

text \<open>\<^verbatim>\<open>'k' in v\<close> and \<^verbatim>\<open>len(v)\<close>.\<close>

fun py_contains_str :: "string \<Rightarrow> pyval \<Rightarrow> py_error + bool" where
  "py_contains_str k (PDict kvs) = Inr (map_of kvs k \<noteq> None)"
| "py_contains_str k (PList xs) = Inr (PStr k \<in> set xs)"
| "py_contains_str k (PStr s) = Inr (sublist k s)"
| "py_contains_str k _ = Inl TypeError"


subsection \<open>Numbers\<close>

text \<open>\<^verbatim>\<open>bool\<close> is a subclass of \<^verbatim>\<open>int\<close>; \<open>int_of\<close> and \<open>num_of\<close> give the value
  of an integer and of any number.\<close>

fun int_of :: "pyval \<Rightarrow> int option" where
  "int_of (PBool b) = Some (if b then 1 else 0)"
| "int_of (PInt i) = Some i"
| "int_of _ = None"

fun num_of :: "pyval \<Rightarrow> rat option" where
  "num_of (PBool b) = Some (if b then 1 else 0)"
| "num_of (PInt i) = Some (of_int i)"
| "num_of (PFloat r) = Some r"
| "num_of _ = None"

text \<open>True division \<^verbatim>\<open>a / b\<close> always gives a float.\<close>

definition py_truediv :: "pyval \<Rightarrow> pyval \<Rightarrow> py_error + pyval" where
  "py_truediv a b =
     (case (num_of a, num_of b) of
        (Some x, Some y) \<Rightarrow> if y = 0 then Inl ZeroDivisionError else Inr (PFloat (x / y))
      | _ \<Rightarrow> Inl TypeError)"

text \<open>\<^verbatim>\<open>a - b\<close>: an int when both operands are ints, a float when one is a float.\<close>

definition py_sub :: "pyval \<Rightarrow> pyval \<Rightarrow> py_error + pyval" where
  "py_sub a b =
     (case (int_of a, int_of b) of
        (Some i, Some j) \<Rightarrow> Inr (PInt (i - j))
      | _ \<Rightarrow> (case (num_of a, num_of b) of
                (Some x, Some y) \<Rightarrow> Inr (PFloat (x - y))
              | _ \<Rightarrow> Inl TypeError))"

text \<open>\<^verbatim>\<open>a * b\<close> on numbers. The scraper only multiplies the float result of a true
  division, so sequence repetition is never reached.\<close>

definition py_mul :: "pyval \<Rightarrow> pyval \<Rightarrow> py_error + pyval" where
  "py_mul a b =
     (case (int_of a, int_of b) of
        (Some i, Some j) \<Rightarrow> Inr (PInt (i * j))
      | _ \<Rightarrow> (case (num_of a, num_of b) of
                (Some x, Some y) \<Rightarrow> Inr (PFloat (x * y))
              | _ \<Rightarrow> Inl TypeError))"

text \<open>\<^verbatim>\<open>a > 0\<close>: ordering against a number is defined for numbers only.\<close>

definition py_gt_zero :: "pyval \<Rightarrow> py_error + bool" where
  "py_gt_zero a = (case num_of a of Some x \<Rightarrow> Inr (0 < x) | None \<Rightarrow> Inl TypeError)"

text \<open>\<^verbatim>\<open>round(x, 2)\<close>: to the nearest multiple of 1/100, ties to even.\<close>

definition round_half_even :: "rat \<Rightarrow> int" where
  "round_half_even x =
     (let f = \<lfloor>x\<rfloor>; d = x - of_int f
      in if d < 1 / 2 then f else if 1 / 2 < d then f + 1 else if even f then f else f + 1)"

definition round2 :: "rat \<Rightarrow> rat" where
  "round2 x = of_int (round_half_even (x * 100)) / 100"

fun py_round2 :: "pyval \<Rightarrow> py_error + pyval" where
  "py_round2 (PFloat r) = Inr (PFloat (round2 r))"
| "py_round2 (PInt i) = Inr (PInt i)"
| "py_round2 (PBool b) = Inr (PInt (if b then 1 else 0))"
| "py_round2 _ = Inl TypeError"

subsection \<open>Strings\<close>

fun join_comma :: "string list \<Rightarrow> string" where
  "join_comma [] = []"
| "join_comma [s] = s"
| "join_comma (s # t # ss) = s @ '','' @ join_comma (t # ss)"

text \<open>\<^verbatim>\<open>','.join(xs)\<close> over a list already built: every element must be a string.\<close>

fun the_str :: "pyval \<Rightarrow> py_error + string" where
  "the_str (PStr s) = Inr s"
| "the_str _ = Inl TypeError"

definition py_join_list :: "pyval list \<Rightarrow> py_error + pyval" where
  "py_join_list xs = bindE (mapE the_str xs) (\<lambda>ss. Inr (PStr (join_comma ss)))"

text \<open>\<^verbatim>\<open>','.join(v)\<close> for any value \<open>v\<close>: it is iterated first.\<close>

definition py_join :: "pyval \<Rightarrow> py_error + pyval" where
  "py_join v = bindE (py_iter v) py_join_list"

subsection \<open>The environment\<close>

text \<open>
  What the scraper reads from outside is a parameter: \<open>now t\<close> is the text that
  \<^verbatim>\<open>datetime.now().isoformat()\<close> returns at the \<open>t\<close>-th interaction with the outside
  (clock readings and HTTP requests share one counter), \<open>py_repr\<close> is \<^verbatim>\<open>str(v)\<close> for a
  value that is not a string, and \<open>http\<close> is what the \<^verbatim>\<open>requests\<close> session does with
  the \<open>t\<close>-th interaction. Logging is not modelled, apart from the errors that building a
  log message can raise.
\<close>

datatype http_outcome =
    Raises py_error
  | Response bool "pyval option"

record env =
  now :: "nat \<Rightarrow> string"
  py_repr :: "pyval \<Rightarrow> string"
  http :: "nat \<Rightarrow> string \<Rightarrow> string \<Rightarrow> http_outcome"

fun py_str :: "env \<Rightarrow> pyval \<Rightarrow> string" where
  "py_str E (PStr s) = s"
| "py_str E v = py_repr E v"

section \<open>The catalog normalizer: one item\<close>

text \<open>A dict literal \<^verbatim>\<open>{'k1': e1, 'k2': e2, ...}\<close> evaluates its values in order; the
  first one that raises ends the construction.\<close>

fun dict_literal :: "(string \<times> (py_error + pyval)) list \<Rightarrow> py_error + pydict" where
  "dict_literal [] = Inr []"
| "dict_literal ((k, e) # fs) = bindE e (\<lambda>v. bindE (dict_literal fs) (\<lambda>r. Inr ((k, v) # r)))"

text \<open>The derived fields of \<^verbatim>\<open>extract_items_from_venue\<close>, written the same in both
  scripts (\<^verbatim>\<open>markets.py\<close> lines 162-172 and 182, \<^verbatim>\<open>markets_baku.py\<close> lines 152-162 and 172).\<close>

definition price_of :: "pyval \<Rightarrow> py_error + pyval" where
  "price_of item_data =
     bindE (py_get item_data ''price'' (PInt 0)) (\<lambda>p. py_truediv p (PInt 100))"

definition original_price_of :: "pyval \<Rightarrow> py_error + pyval" where
  "original_price_of item_data =
     bindE (py_get item_data ''original_price'' PNone) (\<lambda>c.
       if truthy c
       then bindE (py_get item_data ''original_price'' (PInt 0)) (\<lambda>orig. py_truediv orig (PInt 100))
       else Inr PNone)"

definition discount_amount_of :: "pyval \<Rightarrow> py_error + pyval" where
  "discount_amount_of item_data =
     bindE (py_get item_data ''original_price'' PNone) (\<lambda>c.
       if truthy c
       then bindE (py_get item_data ''original_price'' (PInt 0)) (\<lambda>orig.
            bindE (py_get item_data ''price'' (PInt 0)) (\<lambda>p.
            bindE (py_sub orig p) (\<lambda>d. py_truediv d (PInt 100))))
       else Inr (PInt 0))"

definition discount_percentage_of :: "pyval \<Rightarrow> py_error + pyval" where
  "discount_percentage_of item_data =
     bindE (py_get item_data ''original_price'' PNone) (\<lambda>c.
     bindE (if truthy c
            then bindE (py_get item_data ''original_price'' PNone) py_gt_zero
            else Inr False) (\<lambda>positive.
       if positive
       then bindE (py_get item_data ''original_price'' (PInt 0)) (\<lambda>orig.
            bindE (py_get item_data ''price'' (PInt 0)) (\<lambda>p.
            bindE (py_sub orig p) (\<lambda>d.
            bindE (py_get item_data ''original_price'' (PInt 1)) (\<lambda>orig1.
            bindE (py_truediv d orig1) (\<lambda>q.
            bindE (py_mul q (PInt 100)) py_round2)))))
       else Inr (PInt 0)))"

text \<open>\<^verbatim>\<open>item_data.get('unit_price', {}).get(k, d)\<close> under the guard
  \<^verbatim>\<open>if item_data.get('unit_price')\<close>; the value is divided by 100 for \<^verbatim>\<open>price\<close>.\<close>

definition unit_price_value_of :: "pyval \<Rightarrow> py_error + pyval" where
  "unit_price_value_of item_data =
     bindE (py_get item_data ''unit_price'' PNone) (\<lambda>c.
       if truthy c
       then bindE (py_get item_data ''unit_price'' (PDict [])) (\<lambda>u.
            bindE (py_get u ''price'' (PInt 0)) (\<lambda>p. py_truediv p (PInt 100)))
       else Inr PNone)"

definition unit_price_base_of :: "pyval \<Rightarrow> py_error + pyval" where
  "unit_price_base_of item_data =
     bindE (py_get item_data ''unit_price'' PNone) (\<lambda>c.
       if truthy c
       then bindE (py_get item_data ''unit_price'' (PDict [])) (\<lambda>u. py_get u ''base'' (PInt 0))
       else Inr PNone)"

definition unit_price_unit_of :: "pyval \<Rightarrow> py_error + pyval" where
  "unit_price_unit_of item_data =
     bindE (py_get item_data ''unit_price'' PNone) (\<lambda>c.
       if truthy c
       then bindE (py_get item_data ''unit_price'' (PDict [])) (\<lambda>u. py_get u ''unit'' (PStr []))
       else Inr (PStr []))"

text \<open>\<^verbatim>\<open>item_data.get('images', [{}])[0].get(k, '') if item_data.get('images') else ''\<close>\<close>

definition image_of :: "pyval \<Rightarrow> string \<Rightarrow> py_error + pyval" where
  "image_of item_data k =
     bindE (py_get item_data ''images'' PNone) (\<lambda>c.
       if truthy c
       then bindE (py_get item_data ''images'' (PList [PDict []])) (\<lambda>imgs.
            bindE (py_index imgs 0) (\<lambda>img. py_get img k (PStr [])))
       else Inr (PStr []))"

definition is_available_of :: "pyval \<Rightarrow> py_error + pyval" where
  "is_available_of item_data =
     bindE (py_get item_data ''disabled_info'' PNone) (\<lambda>d. Inr (PBool (\<not> truthy d)))"

text \<open>The list fields. \<^verbatim>\<open>markets.py\<close> (lines 180-181) joins the list as it is;
  \<^verbatim>\<open>markets_baku.py\<close> (lines 170-171) first maps each element to a string:
  \<^verbatim>\<open>pref if isinstance(pref, str) else pref.get('id', '')\<close> for the dietary preferences and
  \<^verbatim>\<open>tag.get('id', '') if isinstance(tag, dict) else str(tag)\<close> for the tags.\<close>

definition joined_of :: "pyval \<Rightarrow> string \<Rightarrow> py_error + pyval" where
  "joined_of item_data k = bindE (py_get item_data k (PList [])) py_join"

fun pref_id :: "pyval \<Rightarrow> py_error + pyval" where
  "pref_id (PStr s) = Inr (PStr s)"
| "pref_id pref = py_get pref ''id'' (PStr [])"

fun tag_id :: "env \<Rightarrow> pyval \<Rightarrow> py_error + pyval" where
  "tag_id E (PDict kvs) = py_get (PDict kvs) ''id'' (PStr [])"
| "tag_id E tag = Inr (PStr (py_str E tag))"

definition dietary_preferences_baku :: "pyval \<Rightarrow> py_error + pyval" where
  "dietary_preferences_baku item_data =
     bindE (py_get item_data ''dietary_preferences'' (PList [])) (\<lambda>v.
     bindE (py_iter v) (\<lambda>prefs.
     bindE (mapE pref_id prefs) py_join_list))"

definition tags_baku :: "env \<Rightarrow> pyval \<Rightarrow> py_error + pyval" where
  "tags_baku E item_data =
     bindE (py_get item_data ''tags'' (PList [])) (\<lambda>v.
     bindE (py_iter v) (\<lambda>tags.
     bindE (mapE (tag_id E) tags) py_join_list))"

text \<open>The item dict. The two literals have the same entries in the same order, except that
  \<^verbatim>\<open>markets.py\<close> has \<^verbatim>\<open>category_id\<close> after \<^verbatim>\<open>city_slug\<close> and the two list fields
  differ; the shared runs of entries are written once.\<close>

definition venue_entries :: "pyval \<Rightarrow> pyval \<Rightarrow> (string \<times> (py_error + pyval)) list" where
  "venue_entries venue_info item_data =
     [(''item_id'', py_get item_data ''id'' (PStr [])),
      (''venue_id'', py_get venue_info ''id'' (PStr [])),
      (''venue_name'', py_get venue_info ''name'' (PStr [])),
      (''venue_slug'', py_get venue_info ''slug'' (PStr [])),
      (''city'', py_get venue_info ''city_name'' (PStr [])),
      (''city_slug'', py_get venue_info ''city_slug'' (PStr []))]"

definition detail_entries :: "pyval \<Rightarrow> pyval \<Rightarrow> pyval \<Rightarrow> (string \<times> (py_error + pyval)) list" where
  "detail_entries section_name section_slug item_data =
     [(''section_name'', Inr section_name),
      (''section_slug'', Inr section_slug),
      (''name'', py_get item_data ''name'' (PStr [])),
      (''description'', py_get item_data ''description'' (PStr [])),
      (''price'', price_of item_data),
      (''original_price'', original_price_of item_data),
      (''discount_amount'', discount_amount_of item_data),
      (''discount_percentage'', discount_percentage_of item_data),
      (''unit_info'', py_get item_data ''unit_info'' (PStr [])),
      (''unit_price_value'', unit_price_value_of item_data),
      (''unit_price_base'', unit_price_base_of item_data),
      (''unit_price_unit'', unit_price_unit_of item_data),
      (''barcode_gtin'', py_get item_data ''barcode_gtin'' (PStr [])),
      (''image_url'', image_of item_data ''url''),
      (''image_blurhash'', image_of item_data ''blurhash''),
      (''purchasable_balance'', py_get item_data ''purchasable_balance'' PNone),
      (''quantity_left'', py_get item_data ''quantity_left'' PNone),
      (''max_quantity_per_purchase'', py_get item_data ''max_quantity_per_purchase'' PNone),
      (''min_quantity_per_purchase'', py_get item_data ''min_quantity_per_purchase'' PNone),
      (''alcohol_permille'', py_get item_data ''alcohol_permille'' (PInt 0)),
      (''caffeine_info'', py_get item_data ''caffeine_info'' (PStr [])),
      (''vat_percentage'', py_get item_data ''vat_percentage'' (PInt 0))]"

definition flag_entries :: "env \<Rightarrow> nat \<Rightarrow> pyval \<Rightarrow> (string \<times> (py_error + pyval)) list" where
  "flag_entries E t item_data =
     [(''is_available'', is_available_of item_data),
      (''is_wolt_plus_only'', py_get item_data ''is_wolt_plus_only'' (PBool False)),
      (''is_cutlery'', py_get item_data ''is_cutlery'' (PBool False)),
      (''deposit'', py_get item_data ''deposit'' PNone),
      (''scraped_at'', Inr (PStr (now E t)))]"

text \<open>\<^verbatim>\<open>markets.py\<close>, lines 150-187.\<close>

definition item_of :: "env \<Rightarrow> nat \<Rightarrow> pyval \<Rightarrow> pyval \<Rightarrow> pyval \<Rightarrow> pyval \<Rightarrow> pyval \<Rightarrow> py_error + pydict" where
  "item_of E t venue_info category_id section_name section_slug item_data =
     dict_literal
       (venue_entries venue_info item_data
        @ [(''category_id'', Inr category_id)]
        @ detail_entries section_name section_slug item_data
        @ [(''dietary_preferences'', joined_of item_data ''dietary_preferences''),
           (''tags'', joined_of item_data ''tags'')]
        @ flag_entries E t item_data)"

text \<open>\<^verbatim>\<open>markets_baku.py\<close>, lines 141-177.\<close>

definition item_of_baku :: "env \<Rightarrow> nat \<Rightarrow> pyval \<Rightarrow> pyval \<Rightarrow> pyval \<Rightarrow> pyval \<Rightarrow> py_error + pydict" where
  "item_of_baku E t venue_info section_name section_slug item_data =
     dict_literal
       (venue_entries venue_info item_data
        @ detail_entries section_name section_slug item_data
        @ [(''dietary_preferences'', dietary_preferences_baku item_data),
           (''tags'', tags_baku E item_data)]
        @ flag_entries E t item_data)"

section \<open>The catalog normalizer: \<^verbatim>\<open>extract_items_from_venue\<close>\<close>

text \<open>
  Both versions return the list \<^verbatim>\<open>items\<close>; the model returns it with the counter of
  outside interactions, advanced by one for each clock reading. The last statement before
  \<^verbatim>\<open>return items\<close> formats a log message with \<^verbatim>\<open>venue_info.get('name', ...)\<close>, which
  is evaluated whatever the logging level.
\<close>

subsection \<open>\<^verbatim>\<open>markets_baku.py\<close>: items embedded in the sections\<close>

fun section_items_loop ::
  "env \<Rightarrow> pyval \<Rightarrow> pyval \<Rightarrow> pyval \<Rightarrow> pyval list \<Rightarrow> pydict list \<Rightarrow> nat \<Rightarrow> py_error + (pydict list \<times> nat)" where
  "section_items_loop E venue_info section_name section_slug [] items t = Inr (items, t)"
| "section_items_loop E venue_info section_name section_slug (item_data # rest) items t =
     bindE (item_of_baku E t venue_info section_name section_slug item_data) (\<lambda>item.
       section_items_loop E venue_info section_name section_slug rest (items @ [item]) (Suc t))"

fun sections_loop_baku ::
  "env \<Rightarrow> pyval \<Rightarrow> pyval list \<Rightarrow> pydict list \<Rightarrow> nat \<Rightarrow> py_error + (pydict list \<times> nat)" where
  "sections_loop_baku E venue_info [] items t = Inr (items, t)"
| "sections_loop_baku E venue_info (section # rest) items t =
     bindE (py_get section ''name'' (PStr [])) (\<lambda>section_name.
     bindE (py_get section ''slug'' (PStr [])) (\<lambda>section_slug.
     bindE (py_get section ''items'' (PList [])) (\<lambda>section_items.
     bindE (py_iter section_items) (\<lambda>xs.
     bindE (section_items_loop E venue_info section_name section_slug xs items t) (\<lambda>(items', t').
       sections_loop_baku E venue_info rest items' t')))))"

definition extract_items_from_venue_baku ::
  "env \<Rightarrow> nat \<Rightarrow> pyval \<Rightarrow> pyval \<Rightarrow> py_error + (pydict list \<times> nat)" where
  "extract_items_from_venue_baku E t venue_data venue_info =
     (if \<not> truthy venue_data then Inr ([], t)
      else
        bindE (py_get venue_data ''sections'' (PList [])) (\<lambda>venue_sections.
          if \<not> truthy venue_sections
          then bindE (py_get venue_info ''name'' (PStr ''unknown'')) (\<lambda>_. Inr ([], t))
          else
            bindE (py_iter venue_sections) (\<lambda>sections.
            bindE (sections_loop_baku E venue_info sections [] t) (\<lambda>(items, t').
            bindE (py_get venue_info ''name'' (PStr ''unknown venue'')) (\<lambda>_.
              Inr (items, t'))))))"

subsection \<open>\<^verbatim>\<open>markets.py\<close>: items looked up by id\<close>

text \<open>The keys of \<^verbatim>\<open>items_dict\<close> are the items' ids. A key must be hashable, and numbers
  that compare equal are the same key.\<close>

datatype hkey = HNone | HNum rat | HStr string

fun py_hash :: "pyval \<Rightarrow> py_error + hkey" where
  "py_hash PNone = Inr HNone"
| "py_hash (PBool b) = Inr (HNum (if b then 1 else 0))"
| "py_hash (PInt i) = Inr (HNum (of_int i))"
| "py_hash (PFloat r) = Inr (HNum r)"
| "py_hash (PStr s) = Inr (HStr s)"
| "py_hash _ = Inl TypeError"

text \<open>\<^verbatim>\<open>items_dict = {item['id']: item for item in all_items_data}\<close>\<close>

fun build_items_dict :: "pyval list \<Rightarrow> (hkey \<rightharpoonup> pyval) \<Rightarrow> py_error + (hkey \<rightharpoonup> pyval)" where
  "build_items_dict [] d = Inr d"
| "build_items_dict (item # rest) d =
     bindE (py_getitem_str item ''id'') (\<lambda>i.
     bindE (py_hash i) (\<lambda>k.
       build_items_dict rest (d(k \<mapsto> item))))"

fun item_ids_loop ::
  "env \<Rightarrow> pyval \<Rightarrow> (hkey \<rightharpoonup> pyval) \<Rightarrow> pyval \<Rightarrow> pyval \<Rightarrow> pyval \<Rightarrow> pyval list \<Rightarrow> pydict list \<Rightarrow> nat
     \<Rightarrow> py_error + (pydict list \<times> nat)" where
  "item_ids_loop E venue_info items_dict category_id section_name section_slug [] items t =
     Inr (items, t)"
| "item_ids_loop E venue_info items_dict category_id section_name section_slug (item_id # rest) items t =
     bindE (py_hash item_id) (\<lambda>k.
       case items_dict k of
         None \<Rightarrow>
           item_ids_loop E venue_info items_dict category_id section_name section_slug rest items t
       | Some item_data \<Rightarrow>
           bindE (item_of E t venue_info category_id section_name section_slug item_data) (\<lambda>item.
             item_ids_loop E venue_info items_dict category_id section_name section_slug rest
               (items @ [item]) (Suc t)))"

fun categories_loop ::
  "env \<Rightarrow> pyval \<Rightarrow> (hkey \<rightharpoonup> pyval) \<Rightarrow> pyval \<Rightarrow> pyval \<Rightarrow> pyval list \<Rightarrow> pydict list \<Rightarrow> nat
     \<Rightarrow> py_error + (pydict list \<times> nat)" where
  "categories_loop E venue_info items_dict section_name section_slug [] items t = Inr (items, t)"
| "categories_loop E venue_info items_dict section_name section_slug (category # rest) items t =
     bindE (py_get category ''id'' (PStr [])) (\<lambda>category_id.
     bindE (py_get category ''item_ids'' (PList [])) (\<lambda>item_ids.
     bindE (py_iter item_ids) (\<lambda>ids.
     bindE (item_ids_loop E venue_info items_dict category_id section_name section_slug ids items t)
       (\<lambda>(items', t').
         categories_loop E venue_info items_dict section_name section_slug rest items' t'))))"

fun sections_loop ::
  "env \<Rightarrow> pyval \<Rightarrow> (hkey \<rightharpoonup> pyval) \<Rightarrow> pyval list \<Rightarrow> pydict list \<Rightarrow> nat
     \<Rightarrow> py_error + (pydict list \<times> nat)" where
  "sections_loop E venue_info items_dict [] items t = Inr (items, t)"
| "sections_loop E venue_info items_dict (section # rest) items t =
     bindE (py_get section ''name'' (PStr [])) (\<lambda>section_name.
     bindE (py_get section ''slug'' (PStr [])) (\<lambda>section_slug.
     bindE (py_get section ''categories'' (PList [])) (\<lambda>categories.
     bindE (py_iter categories) (\<lambda>cs.
     bindE (categories_loop E venue_info items_dict section_name section_slug cs items t)
       (\<lambda>(items', t').
         sections_loop E venue_info items_dict rest items' t')))))"

definition extract_items_from_venue ::
  "env \<Rightarrow> nat \<Rightarrow> pyval \<Rightarrow> pyval \<Rightarrow> py_error + (pydict list \<times> nat)" where
  "extract_items_from_venue E t venue_data venue_info =
     (if \<not> truthy venue_data then Inr ([], t)
      else
        bindE (py_get venue_data ''sections'' (PList [])) (\<lambda>venue_sections.
        bindE (py_get venue_data ''items'' (PList [])) (\<lambda>all_items_data.
        bindE (py_iter all_items_data) (\<lambda>pool.
        bindE (build_items_dict pool Map.empty) (\<lambda>items_dict.
        bindE (py_iter venue_sections) (\<lambda>sections.
        bindE (sections_loop E venue_info items_dict sections [] t) (\<lambda>(items, t').
        bindE (py_get venue_info ''name'' (PStr ''unknown venue'')) (\<lambda>_.
          Inr (items, t')))))))))"

section \<open>The fetch gateway: \<^verbatim>\<open>make_request\<close>\<close>

text \<open>
  The \<^verbatim>\<open>requests\<close> session is outside the repository. What it can do with one request is
  an \<open>http_outcome\<close>: \<open>Raises e\<close> when \<^verbatim>\<open>session.get\<close>/\<^verbatim>\<open>session.post\<close> raises, and
  \<open>Response bad body\<close> when it returns a response, where \<open>bad\<close> says that
  \<^verbatim>\<open>raise_for_status()\<close> raises \<^verbatim>\<open>HTTPError\<close> and \<open>body\<close> is the document that
  \<^verbatim>\<open>response.json()\<close> decodes (\<open>None\<close> when the body is not JSON). The callers pass
  no keyword arguments; \<^verbatim>\<open>time.sleep(0.5)\<close> is not modelled. \<^verbatim>\<open>str.upper\<close> and
  \<^verbatim>\<open>str.capitalize\<close> are modelled on ASCII letters.
\<close>

definition upper_char :: "char \<Rightarrow> char" where
  "upper_char c =
     (let n = (of_char c :: nat) in if 97 \<le> n \<and> n \<le> 122 then char_of (n - 32) else c)"


definition py_upper :: "string \<Rightarrow> string" where
  "py_upper s = map upper_char s"


record response =
  status_error :: bool
  json_body :: "pyval option"

definition session_request :: "env \<Rightarrow> nat \<Rightarrow> string \<Rightarrow> string \<Rightarrow> py_error + response" where
  "session_request E t verb url =
     (case http E t verb url of
        Raises e \<Rightarrow> Inl e
      | Response bad body \<Rightarrow> Inr \<lparr>status_error = bad, json_body = body\<rparr>)"

definition raise_for_status :: "response \<Rightarrow> py_error + unit" where
  "raise_for_status r = (if status_error r then Inl HTTPError else Inr ())"

definition response_json :: "response \<Rightarrow> py_error + pyval" where
  "response_json r = (case json_body r of None \<Rightarrow> Inl JSONDecodeError | Some doc \<Rightarrow> Inr doc)"

text \<open>The exception classes that \<^verbatim>\<open>except requests.exceptions.RequestException\<close> catches.\<close>

fun is_request_exception :: "py_error \<Rightarrow> bool" where
  "is_request_exception ConnectionError = True"
| "is_request_exception Timeout = True"
| "is_request_exception HTTPError = True"
| "is_request_exception _ = False"

text \<open>The body of the \<^verbatim>\<open>try\<close> block, then the two handlers.\<close>

definition make_request_try :: "env \<Rightarrow> nat \<Rightarrow> string \<Rightarrow> string \<Rightarrow> py_error + pyval" where
  "make_request_try E t url method =
     bindE (if py_upper method = ''GET'' then session_request E t ''GET'' url
            else if py_upper method = ''POST'' then session_request E t ''POST'' url
            else Inl ValueError) (\<lambda>response.
     bindE (raise_for_status response) (\<lambda>_.
       response_json response))"

definition make_request :: "env \<Rightarrow> nat \<Rightarrow> string \<Rightarrow> string \<Rightarrow> py_error + pyval" where
  "make_request E t url method =
     (case make_request_try E t url method of
        Inr doc \<Rightarrow> Inr doc
      | Inl e \<Rightarrow>
          if is_request_exception e then Inr PNone
          else if e = JSONDecodeError then Inr PNone
          else Inl e)"

section \<open>Venue discovery and catalog fetch\<close>

definition BASE_URL :: string where
  "BASE_URL = ''https://restaurant-api.wolt.com''"

definition CONSUMER_API_URL :: string where
  "CONSUMER_API_URL = ''https://consumer-api.wolt.com''"

definition DEFAULT_LAT :: pyval where
  "DEFAULT_LAT = PFloat (40373141313556964 / 1000000000000000)"

definition DEFAULT_LON :: pyval where
  "DEFAULT_LON = PFloat (4984575754727883 / 100000000000000)"

text \<open>\<^verbatim>\<open>fetch_retail_markets\<close>, the same in both scripts. Setting the two keys changes the
  venue dict inside \<^verbatim>\<open>data\<close> in place; nothing reads that part of \<^verbatim>\<open>data\<close> again.\<close>

fun retail_items_loop :: "pyval \<Rightarrow> pyval \<Rightarrow> pyval list \<Rightarrow> pyval list \<Rightarrow> py_error + pyval list" where
  "retail_items_loop data city_slug [] markets = Inr markets"
| "retail_items_loop data city_slug (item # rest) markets =
     bindE (py_contains_str ''venue'' item) (\<lambda>has_venue.
       if has_venue
       then bindE (py_getitem_str item ''venue'') (\<lambda>venue.
            bindE (py_setitem_str venue ''city_slug'' city_slug) (\<lambda>venue1.
            bindE (py_get data ''city'' (PStr [])) (\<lambda>city.
            bindE (py_setitem_str venue1 ''city_name'' city) (\<lambda>venue2.
              retail_items_loop data city_slug rest (markets @ [venue2])))))
       else retail_items_loop data city_slug rest markets)"

fun retail_sections_loop :: "pyval \<Rightarrow> pyval \<Rightarrow> pyval list \<Rightarrow> pyval list \<Rightarrow> py_error + pyval list" where
  "retail_sections_loop data city_slug [] markets = Inr markets"
| "retail_sections_loop data city_slug (section # rest) markets =
     bindE (py_get section ''items'' (PList [])) (\<lambda>items.
     bindE (py_iter items) (\<lambda>xs.
     bindE (retail_items_loop data city_slug xs markets) (\<lambda>markets'.
       retail_sections_loop data city_slug rest markets')))"

definition retail_url :: "env \<Rightarrow> pyval \<Rightarrow> pyval \<Rightarrow> string" where
  "retail_url E lat lon =
     CONSUMER_API_URL @ ''/v1/pages/retail?lat='' @ py_str E lat @ ''&lon='' @ py_str E lon"

definition fetch_retail_markets :: "env \<Rightarrow> nat \<Rightarrow> pyval \<Rightarrow> pyval \<Rightarrow> pyval \<Rightarrow> py_error + pyval list" where
  "fetch_retail_markets E t lat lon city_slug =
     bindE (make_request E t (retail_url E lat lon) ''GET'') (\<lambda>data.
       if \<not> truthy data then Inr []
       else
         bindE (py_get data ''sections'' (PList [])) (\<lambda>sections.
         bindE (py_iter sections) (\<lambda>secs.
           retail_sections_loop data city_slug secs [])))"

text \<open>\<^verbatim>\<open>fetch_venue_details\<close>. In \<^verbatim>\<open>markets.py\<close> it is the request alone; in
  \<^verbatim>\<open>markets_baku.py\<close> (lines 108-117) it also computes two flags for a debug message.\<close>

definition venue_url :: "env \<Rightarrow> pyval \<Rightarrow> string" where
  "venue_url E venue_slug =
     CONSUMER_API_URL @ ''/consumer-api/venue-content-api/v3/web/venue-content/slug/''
       @ py_str E venue_slug"

definition fetch_venue_details :: "env \<Rightarrow> nat \<Rightarrow> pyval \<Rightarrow> py_error + pyval" where
  "fetch_venue_details E t venue_slug = make_request E t (venue_url E venue_slug) ''GET''"



section \<open>The crawl orchestrator\<close>

text \<open>The scraper object: the two accumulators \<^verbatim>\<open>self.markets\<close> and \<^verbatim>\<open>self.items\<close>,
  and the counter of outside interactions. (\<^verbatim>\<open>self.cities\<close> of \<^verbatim>\<open>markets.py\<close> is read
  only by the summary writer and is left out.)\<close>

record scraper =
  markets :: "pydict list"
  items :: "pydict list"
  tick :: nat

text \<open>The venue record appended to \<^verbatim>\<open>self.markets\<close>: the same literal in
  \<^verbatim>\<open>markets.py\<close> (lines 229-250) and \<^verbatim>\<open>markets_baku.py\<close> (lines 209-230).\<close>

definition market_record ::
  "env \<Rightarrow> nat \<Rightarrow> pyval \<Rightarrow> pyval \<Rightarrow> pyval \<Rightarrow> pyval \<Rightarrow> pyval \<Rightarrow> py_error + pydict" where
  "market_record E t city_name city_slug market market_slug market_name =
     dict_literal
       [(''venue_id'', py_get market ''id'' (PStr [])),
        (''name'', Inr market_name),
        (''slug'', Inr market_slug),
        (''address'', py_get market ''address'' (PStr [])),
        (''city'', Inr city_name),
        (''city_slug'', Inr city_slug),
        (''country'', py_get market ''country'' (PStr [])),
        (''latitude'',
           bindE (py_get market ''location'' (PList [PInt 0, PInt 0])) (\<lambda>loc. py_index loc 1)),
        (''longitude'',
           bindE (py_get market ''location'' (PList [PInt 0, PInt 0])) (\<lambda>loc. py_index loc 0)),
        (''rating_score'',
           bindE (py_get market ''rating'' (PDict [])) (\<lambda>r. py_get r ''score'' PNone)),
        (''rating_volume'',
           bindE (py_get market ''rating'' (PDict [])) (\<lambda>r. py_get r ''volume'' PNone)),
        (''price_range'', py_get market ''price_range'' PNone),
        (''online'', py_get market ''online'' (PBool False)),
        (''delivers'', py_get market ''delivers'' (PBool False)),
        (''delivery_price'',
           bindE (py_get market ''delivery_price_int'' (PInt 0)) (\<lambda>p. py_truediv p (PInt 100))),
        (''estimate_minutes'', py_get market ''estimate'' (PInt 0)),
        (''estimate_range'', py_get market ''estimate_range'' (PStr [])),
        (''short_description'', py_get market ''short_description'' (PStr [])),
        (''tags'', bindE (py_get market ''tags'' (PList [])) py_join),
        (''scraped_at'', Inr (PStr (now E t)))]"


definition process_market ::
  "env \<Rightarrow> pyval \<Rightarrow> pyval \<Rightarrow> scraper \<Rightarrow> pyval \<Rightarrow> py_error + scraper" where
  "process_market E city_name city_slug S market =
     bindE (py_get market ''slug'' (PStr [])) (\<lambda>market_slug.
     bindE (py_get market ''name'' (PStr [])) (\<lambda>market_name.
     bindE (market_record E (tick S) city_name city_slug market market_slug market_name)
       (\<lambda>market_data.
     let S1 = S\<lparr>markets := markets S @ [market_data], tick := Suc (tick S)\<rparr> in
     bindE (fetch_venue_details E (tick S1) market_slug) (\<lambda>venue_details.
     let S2 = S1\<lparr>tick := Suc (tick S1)\<rparr> in
       if truthy venue_details
       then bindE (extract_items_from_venue E (tick S2) venue_details market)
              (\<lambda>(venue_items, t'). Inr (S2\<lparr>items := items S2 @ venue_items, tick := t'\<rparr>))
       else Inr S2))))"


fun markets_loop ::
  "env \<Rightarrow> pyval \<Rightarrow> pyval \<Rightarrow> pyval list \<Rightarrow> scraper \<Rightarrow> py_error + scraper" where
  "markets_loop E city_name city_slug [] S = Inr S"
| "markets_loop E city_name city_slug (market # rest) S =
     bindE (process_market E city_name city_slug S market) (\<lambda>S'.
       markets_loop E city_name city_slug rest S')"


text \<open>\<^verbatim>\<open>fetch_cities\<close> and \<^verbatim>\<open>scrape_all_markets\<close> of \<^verbatim>\<open>markets.py\<close>.\<close>

definition fetch_cities :: "env \<Rightarrow> nat \<Rightarrow> py_error + pyval" where
  "fetch_cities E t =
     bindE (make_request E t (BASE_URL @ ''/v1/cities'') ''GET'') (\<lambda>data.
     bindE (if truthy data then py_contains_str ''results'' data else Inr False) (\<lambda>found.
       if found then py_getitem_str data ''results'' else Inr (PList [])))"

definition default_city :: pyval where
  "default_city =
     PDict [(''slug'', PStr ''baku''),
            (''name'', PStr ''Baku''),
            (''location'', PDict [(''coordinates'', PList [DEFAULT_LON, DEFAULT_LAT])])]"

fun cities_loop :: "env \<Rightarrow> pyval list \<Rightarrow> scraper \<Rightarrow> py_error + scraper" where
  "cities_loop E [] S = Inr S"
| "cities_loop E (city # rest) S =
     bindE (py_get city ''slug'' (PStr [])) (\<lambda>city_slug.
     bindE (py_get city ''name'' (PStr [])) (\<lambda>city_name.
     bindE (py_get city ''location'' (PDict [])) (\<lambda>location.
     bindE (py_get location ''coordinates'' (PList [DEFAULT_LON, DEFAULT_LAT])) (\<lambda>coords.
     bindE (py_index coords 0) (\<lambda>lon.
     bindE (py_index coords 1) (\<lambda>lat.
     bindE (fetch_retail_markets E (tick S) lat lon city_slug) (\<lambda>found.
     bindE (markets_loop E city_name city_slug found (S\<lparr>tick := Suc (tick S)\<rparr>)) (\<lambda>S'.
       cities_loop E rest S'))))))))"

definition scrape_all_markets :: "env \<Rightarrow> scraper \<Rightarrow> py_error + scraper" where
  "scrape_all_markets E S =
     bindE (fetch_cities E (tick S)) (\<lambda>fetched.
     bindE (py_iter (if \<not> truthy fetched then PList [default_city] else fetched)) (\<lambda>cities.
       cities_loop E cities (S\<lparr>tick := Suc (tick S)\<rparr>)))"

section \<open>Observing results\<close>

text \<open>
  What the statements below read off a result: one field of a built item, one column of
  the list a normalizer returns (with the advanced counter), the records without their
  \<^verbatim>\<open>scraped_at\<close> entry, and the venue ids of the two accumulators after a crawl.
\<close>

definition field_of :: "string \<Rightarrow> py_error + pydict \<Rightarrow> pyval option" where
  "field_of k res = (case res of Inl e \<Rightarrow> None | Inr r \<Rightarrow> map_of r k)"

definition column :: "string \<Rightarrow> py_error + (pydict list \<times> nat) \<Rightarrow> py_error + (pyval option list \<times> nat)" where
  "column k res = (case res of Inl e \<Rightarrow> Inl e | Inr (rs, t) \<Rightarrow> Inr (map (\<lambda>r. map_of r k) rs, t))"

definition without_time :: "pydict \<Rightarrow> pydict" where
  "without_time r = AList.delete ''scraped_at'' r"

definition timeless :: "py_error + (pydict list \<times> nat) \<Rightarrow> py_error + pydict list" where
  "timeless res = (case res of Inl e \<Rightarrow> Inl e | Inr (rs, t) \<Rightarrow> Inr (map without_time rs))"


section \<open>The two document shapes, in the words of the specification\<close>

text \<open>
  The flat sequence of product records: the rows of a document are built one after the
  other, each with the next clock reading. \<open>walk_rows\<close> adds them to the records
  accumulated so far.
\<close>

fun build_rows :: "(nat \<Rightarrow> 'a \<Rightarrow> py_error + pydict) \<Rightarrow> nat \<Rightarrow> 'a list \<Rightarrow> py_error + pydict list" where
  "build_rows f t [] = Inr []"
| "build_rows f t (x # xs) = bindE (f t x) (\<lambda>r. bindE (build_rows f (Suc t) xs) (\<lambda>rs. Inr (r # rs)))"

definition walk_rows ::
  "(nat \<Rightarrow> 'a \<Rightarrow> py_error + pydict) \<Rightarrow> 'a list \<Rightarrow> pydict list \<Rightarrow> nat \<Rightarrow> py_error + (pydict list \<times> nat)" where
  "walk_rows f rows acc t = bindE (build_rows f t rows) (\<lambda>rs. Inr (acc @ rs, t + length rs))"

text \<open>
  Shape B (inline): sections whose items are embedded in each section. \<open>inline_doc\<close>
  says that the document is an object whose sections are objects with a list of items;
  \<open>inline_rows\<close> walks sections and embedded items and gives each item with the name
  and slug of its section.
\<close>

fun inline_section :: "pyval \<Rightarrow> bool" where
  "inline_section (PDict kv) = (case dget kv ''items'' (PList []) of PList xs \<Rightarrow> True | _ \<Rightarrow> False)"
| "inline_section _ = False"

fun inline_section_rows :: "pyval \<Rightarrow> (pyval \<times> pyval \<times> pyval) list" where
  "inline_section_rows (PDict kv) =
     (case dget kv ''items'' (PList []) of
        PList xs \<Rightarrow> map (\<lambda>x. (dget kv ''name'' (PStr []), dget kv ''slug'' (PStr []), x)) xs
      | _ \<Rightarrow> [])"
| "inline_section_rows _ = []"

fun inline_doc :: "pyval \<Rightarrow> bool" where
  "inline_doc (PDict kv) =
     (case dget kv ''sections'' (PList []) of PList secs \<Rightarrow> list_all inline_section secs | _ \<Rightarrow> False)"
| "inline_doc _ = False"

fun inline_rows :: "pyval \<Rightarrow> (pyval \<times> pyval \<times> pyval) list" where
  "inline_rows (PDict kv) =
     (case dget kv ''sections'' (PList []) of
        PList secs \<Rightarrow> concat (map inline_section_rows secs)
      | _ \<Rightarrow> [])"
| "inline_rows _ = []"

text \<open>
  Shape A (indexed): a pool of item definitions keyed by id, and sections of categories
  that list item ids. \<open>lookup_table\<close> is the id-to-item table of the pool (the last
  entry wins for a repeated id); \<open>indexed_rows\<close> walks sections, categories and item-id
  lists and resolves each id against the table, skipping ids with no match.
  \<open>indexed_doc\<close> says that every pool entry is an object with a hashable \<^verbatim>\<open>id\<close>, and
  that sections, categories and item-id lists have that structure.
\<close>

fun hashable :: "pyval \<Rightarrow> bool" where
  "hashable (PList xs) = False"
| "hashable (PDict kv) = False"
| "hashable _ = True"

fun key_of :: "pyval \<Rightarrow> hkey" where
  "key_of PNone = HNone"
| "key_of (PBool b) = HNum (if b then 1 else 0)"
| "key_of (PInt i) = HNum (of_int i)"
| "key_of (PFloat r) = HNum r"
| "key_of (PStr s) = HStr s"
| "key_of _ = HNone"

fun pool_entry :: "pyval \<Rightarrow> bool" where
  "pool_entry (PDict kv) = (case map_of kv ''id'' of Some i \<Rightarrow> hashable i | None \<Rightarrow> False)"
| "pool_entry _ = False"

fun entry_key :: "pyval \<Rightarrow> hkey" where
  "entry_key (PDict kv) = key_of (dget kv ''id'' PNone)"
| "entry_key _ = HNone"

definition lookup_table :: "pyval list \<Rightarrow> hkey \<rightharpoonup> pyval" where
  "lookup_table pool = map_of (rev (map (\<lambda>item. (entry_key item, item)) pool))"

fun indexed_category :: "pyval \<Rightarrow> bool" where
  "indexed_category (PDict kv) =
     (case dget kv ''item_ids'' (PList []) of PList ids \<Rightarrow> list_all hashable ids | _ \<Rightarrow> False)"
| "indexed_category _ = False"

fun indexed_category_rows ::
  "(hkey \<rightharpoonup> pyval) \<Rightarrow> pyval \<Rightarrow> pyval \<Rightarrow> pyval \<Rightarrow> (pyval \<times> pyval \<times> pyval \<times> pyval) list" where
  "indexed_category_rows table section_name section_slug (PDict kv) =
     (case dget kv ''item_ids'' (PList []) of
        PList ids \<Rightarrow>
          map (\<lambda>item. (dget kv ''id'' (PStr []), section_name, section_slug, item))
            (List.map_filter (\<lambda>i. table (key_of i)) ids)
      | _ \<Rightarrow> [])"
| "indexed_category_rows table section_name section_slug _ = []"

fun indexed_section :: "pyval \<Rightarrow> bool" where
  "indexed_section (PDict kv) =
     (case dget kv ''categories'' (PList []) of PList cs \<Rightarrow> list_all indexed_category cs | _ \<Rightarrow> False)"
| "indexed_section _ = False"

fun indexed_section_rows :: "(hkey \<rightharpoonup> pyval) \<Rightarrow> pyval \<Rightarrow> (pyval \<times> pyval \<times> pyval \<times> pyval) list" where
  "indexed_section_rows table (PDict kv) =
     (case dget kv ''categories'' (PList []) of
        PList cs \<Rightarrow>
          concat (map (indexed_category_rows table (dget kv ''name'' (PStr [])) (dget kv ''slug'' (PStr []))) cs)
      | _ \<Rightarrow> [])"
| "indexed_section_rows table _ = []"

fun indexed_doc :: "pyval \<Rightarrow> bool" where
  "indexed_doc (PDict kv) =
     ((case dget kv ''items'' (PList []) of PList pool \<Rightarrow> list_all pool_entry pool | _ \<Rightarrow> False)
      \<and> (case dget kv ''sections'' (PList []) of PList secs \<Rightarrow> list_all indexed_section secs | _ \<Rightarrow> False))"
| "indexed_doc _ = False"

fun indexed_rows :: "pyval \<Rightarrow> (pyval \<times> pyval \<times> pyval \<times> pyval) list" where
  "indexed_rows (PDict kv) =
     (case (dget kv ''items'' (PList []), dget kv ''sections'' (PList [])) of
        (PList pool, PList secs) \<Rightarrow> concat (map (indexed_section_rows (lookup_table pool)) secs)
      | _ \<Rightarrow> [])"
| "indexed_rows _ = []"

section \<open>Items whose present fields have the expected types\<close>















section \<open>Sample inputs\<close>

text \<open>A clock that advances after its first reading, a venue and a few catalog items.\<close>

definition sample_now :: "nat \<Rightarrow> string" where
  "sample_now t = (if t = 0 then ''2024-01-01T00:00:00'' else ''2024-01-01T00:00:01'')"

definition sample_env :: env where
  "sample_env = \<lparr>now = sample_now, py_repr = (\<lambda>v. ''?''), http = (\<lambda>t verb url. Raises ConnectionError)\<rparr>"

definition sample_venue :: pyval where
  "sample_venue = PDict [(''id'', PStr ''v1''), (''name'', PStr ''Bravo''), (''slug'', PStr ''bravo'')]"

definition discounted_item :: pyval where
  "discounted_item = PDict [(''id'', PStr ''i1''), (''price'', PInt 300), (''original_price'', PInt 400)]"

definition marked_up_item :: pyval where
  "marked_up_item = PDict [(''id'', PStr ''i2''), (''price'', PInt 150), (''original_price'', PInt 100)]"

definition refund_item :: pyval where
  "refund_item = PDict [(''id'', PStr ''i3''), (''price'', PInt (- 250))]"

definition empty_marker_item :: pyval where
  "empty_marker_item = PDict [(''id'', PStr ''i4''), (''price'', PInt 120), (''disabled_info'', PDict [])]"

definition plain_item :: pyval where
  "plain_item = PDict [(''id'', PStr ''i5''), (''price'', PInt 120)]"

definition negative_original_item :: pyval where
  "negative_original_item = PDict [(''id'', PStr ''i6''), (''price'', PInt 120), (''original_price'', PInt (- 100))]"

definition same_price_item :: pyval where
  "same_price_item = PDict [(''id'', PStr ''i7''), (''price'', PInt 200), (''original_price'', PInt 200)]"

definition sold_out_item :: pyval where
  "sold_out_item = PDict [(''id'', PStr ''i8''), (''disabled_info'', PDict [(''reason'', PStr ''sold out'')])]"

text \<open>Catalog documents: one of each shape with the same two items, documents whose
  items have no fields at all, and documents with a field of an unexpected shape.\<close>

definition shape_a_doc :: pyval where
  "shape_a_doc =
     PDict [(''sections'',
              PList [PDict [(''name'', PStr ''Drinks''), (''slug'', PStr ''drinks''),
                            (''categories'',
                               PList [PDict [(''id'', PStr ''c1''),
                                             (''item_ids'', PList [PStr ''i1'', PStr ''i9''])]])]]),
            (''items'', PList [discounted_item, plain_item])]"

definition shape_b_doc :: pyval where
  "shape_b_doc =
     PDict [(''sections'',
              PList [PDict [(''name'', PStr ''Drinks''), (''slug'', PStr ''drinks''),
                            (''items'', PList [discounted_item, plain_item])],
                     PDict [(''name'', PStr ''Snacks''), (''slug'', PStr ''snacks''),
                            (''items'', PList [])]])]"




definition missing_id_doc :: pyval where
  "missing_id_doc = PDict [(''sections'', PList []), (''items'', PList [PDict [(''name'', PStr ''Milk'')]])]"

definition object_tags_doc :: pyval where
  "object_tags_doc =
     PDict [(''sections'',
              PList [PDict [(''name'', PStr ''Drinks''), (''slug'', PStr ''drinks''),
                            (''categories'',
                               PList [PDict [(''id'', PStr ''c1''), (''item_ids'', PList [PStr ''i1''])]])]]),
            (''items'',
              PList [PDict [(''id'', PStr ''i1''), (''price'', PInt 300),
                            (''tags'', PList [PDict [(''id'', PStr ''beer'')],
                                              PDict [(''id'', PStr ''local'')]])]])]"

definition object_tags_inline_doc :: pyval where
  "object_tags_inline_doc =
     PDict [(''sections'',
              PList [PDict [(''name'', PStr ''Drinks''), (''slug'', PStr ''drinks''),
                            (''items'',
                               PList [PDict [(''id'', PStr ''i1''), (''price'', PInt 300),
                                             (''tags'', PList [PDict [(''id'', PStr ''beer'')],
                                                               PDict [(''id'', PStr ''local'')]])],
                                      PDict [(''id'', PStr ''i2''), (''price'', PInt 300),
                                             (''tags'', PList [PStr ''beer'', PStr ''local''])]])]])]"

text \<open>A small crawl: the retail listing has two venues and a banner; the catalog of the
  first venue is \<open>shape_b_doc\<close>, the request for the second times out.\<close>

definition bravo_venue :: pyval where
  "bravo_venue = PDict [(''id'', PStr ''v1''), (''name'', PStr ''Bravo''), (''slug'', PStr ''bravo'')]"

definition araz_venue :: pyval where
  "araz_venue = PDict [(''id'', PStr ''v2''), (''name'', PStr ''Araz''), (''slug'', PStr ''araz'')]"


definition retail_doc :: pyval where
  "retail_doc =
     PDict [(''city'', PStr ''Baku''),
            (''sections'',
              PList [PDict [(''items'',
                       PList [PDict [(''venue'', bravo_venue)],
                              PDict [(''title'', PStr ''banner'')],
                              PDict [(''venue'', araz_venue)]])]])]"

definition crawl_http :: "nat \<Rightarrow> string \<Rightarrow> string \<Rightarrow> http_outcome" where
  "crawl_http t verb url =
     (if url = retail_url sample_env DEFAULT_LAT DEFAULT_LON then Response False (Some retail_doc)
      else if url = venue_url sample_env (PStr ''bravo'') then Response False (Some shape_b_doc)
      else if url = venue_url sample_env (PStr ''araz'') then Raises Timeout
      else Response True None)"

definition crawl_env :: env where
  "crawl_env = sample_env\<lparr>http := crawl_http\<rparr>"


section \<open>Basic facts\<close>

lemma not_isl_obtain: "\<not> isl m \<Longrightarrow> \<exists>r. m = Inr r"
  by (cases m) simp_all

lemma bindE_Inl [simp]: "bindE (Inl e) f = Inl e"
  by (simp add: bindE_def)

lemma bindE_Inr [simp]: "bindE (Inr x) f = f x"
  by (simp add: bindE_def)

lemma bindE_eq_Inr: "bindE m f = Inr y \<longleftrightarrow> (\<exists>x. m = Inr x \<and> f x = Inr y)"
  by (cases m) simp_all


lemma dget_truthy: "truthy (dget kv k PNone) \<Longrightarrow> dget kv k d = dget kv k PNone"
  by (cases "map_of kv k") (simp_all add: dget_def)

lemma num_of_truthy: "num_of v = Some x \<Longrightarrow> truthy v = (x \<noteq> 0)"
  by (cases v) (auto split: if_splits)

lemma py_sub_num:
  "num_of a = Some x \<Longrightarrow> num_of b = Some y \<Longrightarrow> \<exists>d. py_sub a b = Inr d \<and> num_of d = Some (x - y)"
  by (cases a; cases b) (auto simp: py_sub_def)


lemma py_get_dict_total [simp]: "\<not> isl (py_get (PDict kv) k d)"
  by simp

subsection \<open>Dict literals\<close>

lemma dict_literal_field:
  "dict_literal fs = Inr r \<Longrightarrow> map_of fs k = Some e \<Longrightarrow> \<exists>v. e = Inr v \<and> map_of r k = Some v"
proof (induction fs arbitrary: r)
  case Nil
  then show ?case by simp
next
  case (Cons f fs)
  obtain k' e' where f: "f = (k', e')" by (cases f)
  from Cons.prems(1) f obtain v' r' where
    e': "e' = Inr v'" and r': "dict_literal fs = Inr r'" and r: "r = (k', v') # r'"
    by (auto simp: bindE_eq_Inr)
  show ?case
  proof (cases "k = k'")
    case True
    with Cons.prems(2) f e' r show ?thesis by simp
  next
    case False
    with Cons.prems(2) f have "map_of fs k = Some e" by simp
    from Cons.IH [OF r' this] False r show ?thesis by simp
  qed
qed


lemma dict_literal_append:
  "dict_literal (fs @ gs) =
     bindE (dict_literal fs) (\<lambda>r. bindE (dict_literal gs) (\<lambda>r'. Inr (r @ r')))"
proof (induction fs)
  case Nil
  then show ?case by (cases "dict_literal gs") simp_all
next
  case (Cons f fs)
  obtain k e where f: "f = (k, e)" by (cases f)
  show ?case
    by (cases e; cases "dict_literal fs"; cases "dict_literal gs") (simp_all add: f Cons)
qed

lemma dict_literal_stamp:
  "dict_literal (fs @ [(''scraped_at'', Inr v)]) =
     bindE (dict_literal fs) (\<lambda>r. Inr (r @ [(''scraped_at'', v)]))"
  by (simp add: dict_literal_append)

subsection \<open>Rounding\<close>



section \<open>The derived fields of one item\<close>

lemma item_of_baku_fields:
  assumes "item_of_baku E t vi sn ss it = Inr r"
  shows "\<exists>p op da dp av. price_of it = Inr p \<and> map_of r ''price'' = Some p
     \<and> original_price_of it = Inr op \<and> map_of r ''original_price'' = Some op
     \<and> discount_amount_of it = Inr da \<and> map_of r ''discount_amount'' = Some da
     \<and> discount_percentage_of it = Inr dp \<and> map_of r ''discount_percentage'' = Some dp
     \<and> is_available_of it = Inr av \<and> map_of r ''is_available'' = Some av"
proof -
  let ?fs = "venue_entries vi it @ detail_entries sn ss it
        @ [(''dietary_preferences'', dietary_preferences_baku it), (''tags'', tags_baku E it)]
        @ flag_entries E t it"
  have lit: "dict_literal ?fs = Inr r"
    using assms by (simp add: item_of_baku_def)
  have 1: "map_of ?fs ''price'' = Some (price_of it)"
    by (simp add: venue_entries_def detail_entries_def flag_entries_def)
  have 2: "map_of ?fs ''original_price'' = Some (original_price_of it)"
    by (simp add: venue_entries_def detail_entries_def flag_entries_def)
  have 3: "map_of ?fs ''discount_amount'' = Some (discount_amount_of it)"
    by (simp add: venue_entries_def detail_entries_def flag_entries_def)
  have 4: "map_of ?fs ''discount_percentage'' = Some (discount_percentage_of it)"
    by (simp add: venue_entries_def detail_entries_def flag_entries_def)
  have 5: "map_of ?fs ''is_available'' = Some (is_available_of it)"
    by (simp add: venue_entries_def detail_entries_def flag_entries_def)
  from dict_literal_field [OF lit 1] dict_literal_field [OF lit 2] dict_literal_field [OF lit 3]
    dict_literal_field [OF lit 4] dict_literal_field [OF lit 5]
  show ?thesis by blast
qed

lemma item_of_fields:
  assumes "item_of E t vi cid sn ss it = Inr r"
  shows "\<exists>p op da dp av. price_of it = Inr p \<and> map_of r ''price'' = Some p
     \<and> original_price_of it = Inr op \<and> map_of r ''original_price'' = Some op
     \<and> discount_amount_of it = Inr da \<and> map_of r ''discount_amount'' = Some da
     \<and> discount_percentage_of it = Inr dp \<and> map_of r ''discount_percentage'' = Some dp
     \<and> is_available_of it = Inr av \<and> map_of r ''is_available'' = Some av"
proof -
  let ?fs = "venue_entries vi it @ [(''category_id'', Inr cid)] @ detail_entries sn ss it
        @ [(''dietary_preferences'', joined_of it ''dietary_preferences''),
           (''tags'', joined_of it ''tags'')]
        @ flag_entries E t it"
  have lit: "dict_literal ?fs = Inr r"
    using assms by (simp add: item_of_def)
  have 1: "map_of ?fs ''price'' = Some (price_of it)"
    by (simp add: venue_entries_def detail_entries_def flag_entries_def)
  have 2: "map_of ?fs ''original_price'' = Some (original_price_of it)"
    by (simp add: venue_entries_def detail_entries_def flag_entries_def)
  have 3: "map_of ?fs ''discount_amount'' = Some (discount_amount_of it)"
    by (simp add: venue_entries_def detail_entries_def flag_entries_def)
  have 4: "map_of ?fs ''discount_percentage'' = Some (discount_percentage_of it)"
    by (simp add: venue_entries_def detail_entries_def flag_entries_def)
  have 5: "map_of ?fs ''is_available'' = Some (is_available_of it)"
    by (simp add: venue_entries_def detail_entries_def flag_entries_def)
  from dict_literal_field [OF lit 1] dict_literal_field [OF lit 2] dict_literal_field [OF lit 3]
    dict_literal_field [OF lit 4] dict_literal_field [OF lit 5]
  show ?thesis by blast
qed

lemma item_fields:
  assumes "item_of E t vi cid sn ss it = Inr r \<or> item_of_baku E t vi sn ss it = Inr r"
  shows "\<exists>p op da dp av. price_of it = Inr p \<and> map_of r ''price'' = Some p
     \<and> original_price_of it = Inr op \<and> map_of r ''original_price'' = Some op
     \<and> discount_amount_of it = Inr da \<and> map_of r ''discount_amount'' = Some da
     \<and> discount_percentage_of it = Inr dp \<and> map_of r ''discount_percentage'' = Some dp
     \<and> is_available_of it = Inr av \<and> map_of r ''is_available'' = Some av"
  using assms item_of_fields item_of_baku_fields by blast

lemma is_available_of_dict:
  "is_available_of (PDict kv) = Inr (PBool (\<not> truthy (dget kv ''disabled_info'' PNone)))"
  by (simp add: is_available_of_def)

lemma price_of_dict:
  "price_of (PDict kv) = Inr v \<Longrightarrow>
     \<exists>p. num_of (dget kv ''price'' (PInt 0)) = Some p \<and> v = PFloat (p / 100)"
  by (auto simp: price_of_def py_truediv_def split: option.splits)

lemma discount_percentage_of_positive:
  assumes o: "num_of (dget kv ''original_price'' PNone) = Some orig" and pos: "0 < orig"
    and p: "num_of (dget kv ''price'' (PInt 0)) = Some p"
  shows "discount_percentage_of (PDict kv) = Inr (PFloat (round2 ((orig - p) / orig * 100)))"
proof -
  let ?ov = "dget kv ''original_price'' PNone"
  have t: "truthy ?ov" using num_of_truthy [OF o] pos by simp
  have d0: "dget kv ''original_price'' (PInt 0) = ?ov" and d1: "dget kv ''original_price'' (PInt 1) = ?ov"
    using dget_truthy [OF t] by simp_all
  obtain d where d: "py_sub ?ov (dget kv ''price'' (PInt 0)) = Inr d" "num_of d = Some (orig - p)"
    using py_sub_num [OF o p] by blast
  have q: "py_truediv d ?ov = Inr (PFloat ((orig - p) / orig))"
    using d(2) o pos by (simp add: py_truediv_def)
  show ?thesis
    using t o pos d(1) q
    by (simp add: discount_percentage_of_def d0 d1 py_gt_zero_def py_mul_def)
qed

lemma discount_percentage_of_nonpositive:
  assumes o: "num_of (dget kv ''original_price'' PNone) = Some orig" and "orig \<le> 0"
  shows "discount_percentage_of (PDict kv) = Inr (PInt 0)"
  using assms by (simp add: discount_percentage_of_def py_gt_zero_def)

lemma derived_absent:
  assumes "map_of kv ''original_price'' = None"
  shows "original_price_of (PDict kv) = Inr PNone"
    and "discount_amount_of (PDict kv) = Inr (PInt 0)"
    and "discount_percentage_of (PDict kv) = Inr (PInt 0)"
  using assms
  by (simp_all add: original_price_of_def discount_amount_of_def discount_percentage_of_def dget_def)

lemma sample_items_build:
  "\<exists>r. item_of_baku sample_env 0 sample_venue (PStr ''Drinks'') (PStr ''drinks'') discounted_item = Inr r"
  "\<exists>r. item_of_baku sample_env 0 sample_venue (PStr ''Drinks'') (PStr ''drinks'') plain_item = Inr r"
  "\<exists>r. item_of_baku sample_env 0 sample_venue (PStr ''Drinks'') (PStr ''drinks'') negative_original_item = Inr r"
  "\<exists>r. item_of_baku sample_env 0 sample_venue (PStr ''Drinks'') (PStr ''drinks'') same_price_item = Inr r"
  "\<exists>r. item_of_baku sample_env 0 sample_venue (PStr ''Drinks'') (PStr ''drinks'') sold_out_item = Inr r"
  by (rule not_isl_obtain, code_simp)+



text \<open>
  Claim C3, as amended. \<^verbatim>\<open>discount_amount\<close> and \<^verbatim>\<open>discount_percentage\<close> are 0 when
  \<^verbatim>\<open>original_price\<close> is absent; \<^verbatim>\<open>discount_percentage\<close> is 0 when
  \<^verbatim>\<open>original_price\<close> is zero or negative, and when it is positive and equal to the
  price. The guard of the source is \<^verbatim>\<open>original_price and original_price > 0\<close>: it does
  not compare with the price.
\<close>

theorem discount_zero_cases:
  assumes "item_of E t vi cid sn ss (PDict kv) = Inr r \<or> item_of_baku E t vi sn ss (PDict kv) = Inr r"
  shows "(map_of kv ''original_price'' = None \<longrightarrow>
            map_of r ''discount_amount'' = Some (PInt 0)
          \<and> map_of r ''discount_percentage'' = Some (PInt 0))
    \<and> (\<forall>orig. num_of (dget kv ''original_price'' PNone) = Some orig \<and> orig \<le> 0 \<longrightarrow>
            map_of r ''discount_percentage'' = Some (PInt 0))
    \<and> (\<forall>orig. num_of (dget kv ''original_price'' PNone) = Some orig \<and> 0 < orig
            \<and> num_of (dget kv ''price'' (PInt 0)) = Some orig \<longrightarrow>
            map_of r ''discount_percentage'' = Some (PFloat 0))"
proof -
  from item_fields [OF assms] obtain da dp where
    da: "discount_amount_of (PDict kv) = Inr da" "map_of r ''discount_amount'' = Some da" and
    dp: "discount_percentage_of (PDict kv) = Inr dp" "map_of r ''discount_percentage'' = Some dp"
    by blast
  have 1: "map_of kv ''original_price'' = None \<longrightarrow>
            map_of r ''discount_amount'' = Some (PInt 0)
          \<and> map_of r ''discount_percentage'' = Some (PInt 0)"
    using derived_absent(2,3) [of kv] da dp by auto
  have 2: "\<forall>orig. num_of (dget kv ''original_price'' PNone) = Some orig \<and> orig \<le> 0 \<longrightarrow>
            map_of r ''discount_percentage'' = Some (PInt 0)"
    using discount_percentage_of_nonpositive [of kv] dp by auto
  have 3: "\<forall>orig. num_of (dget kv ''original_price'' PNone) = Some orig \<and> 0 < orig
            \<and> num_of (dget kv ''price'' (PInt 0)) = Some orig \<longrightarrow>
            map_of r ''discount_percentage'' = Some (PFloat 0)"
  proof (intro allI impI)
    fix orig
    assume h: "num_of (dget kv ''original_price'' PNone) = Some orig \<and> 0 < orig
            \<and> num_of (dget kv ''price'' (PInt 0)) = Some orig"
    then have "discount_percentage_of (PDict kv) = Inr (PFloat (round2 ((orig - orig) / orig * 100)))"
      using discount_percentage_of_positive [of kv orig orig] by blast
    then show "map_of r ''discount_percentage'' = Some (PFloat 0)"
      using dp by (simp add: round2_def round_half_even_def)
  qed
  from 1 2 3 show ?thesis by blast
qed

text \<open>The claim as first stated fails: an original price of 100 below a price of 150
  gives -50.0, not 0.\<close>

theorem discount_zero_cases_counterexample:
  "field_of ''discount_percentage''
     (item_of_baku sample_env 0 sample_venue (PStr ''Drinks'') (PStr ''drinks'') marked_up_item)
   = Some (PFloat (- 50))
   \<and> field_of ''original_price''
     (item_of_baku sample_env 0 sample_venue (PStr ''Drinks'') (PStr ''drinks'') marked_up_item)
   = Some (PFloat 1)
   \<and> field_of ''price''
     (item_of_baku sample_env 0 sample_venue (PStr ''Drinks'') (PStr ''drinks'') marked_up_item)
   = Some (PFloat (3 / 2))"
  by code_simp

text \<open>An item without original price, one with a negative one, one with original price
  equal to the price.\<close>

theorem discount_zero_cases_witness:
  "field_of ''discount_amount''
     (item_of_baku sample_env 0 sample_venue (PStr ''Drinks'') (PStr ''drinks'') plain_item)
   = Some (PInt 0)
   \<and> field_of ''discount_percentage''
     (item_of_baku sample_env 0 sample_venue (PStr ''Drinks'') (PStr ''drinks'') plain_item)
   = Some (PInt 0)
   \<and> field_of ''discount_percentage''
     (item_of_baku sample_env 0 sample_venue (PStr ''Drinks'') (PStr ''drinks'') negative_original_item)
   = Some (PInt 0)
   \<and> field_of ''discount_percentage''
     (item_of_baku sample_env 0 sample_venue (PStr ''Drinks'') (PStr ''drinks'') same_price_item)
   = Some (PFloat 0)"
proof -
  obtain r1 r2 r3 where
    r1: "item_of_baku sample_env 0 sample_venue (PStr ''Drinks'') (PStr ''drinks'')
           (PDict [(''id'', PStr ''i5''), (''price'', PInt 120)]) = Inr r1" and
    r2: "item_of_baku sample_env 0 sample_venue (PStr ''Drinks'') (PStr ''drinks'')
           (PDict [(''id'', PStr ''i6''), (''price'', PInt 120), (''original_price'', PInt (- 100))]) = Inr r2" and
    r3: "item_of_baku sample_env 0 sample_venue (PStr ''Drinks'') (PStr ''drinks'')
           (PDict [(''id'', PStr ''i7''), (''price'', PInt 200), (''original_price'', PInt 200)]) = Inr r3"
    using sample_items_build(2,3,4)
    unfolding plain_item_def negative_original_item_def same_price_item_def by blast
  have "map_of r1 ''discount_amount'' = Some (PInt 0) \<and> map_of r1 ''discount_percentage'' = Some (PInt 0)"
    using discount_zero_cases [OF disjI2 [OF r1]] by simp
  moreover have "map_of r2 ''discount_percentage'' = Some (PInt 0)"
    using discount_zero_cases [OF disjI2 [OF r2]] by (simp add: dget_def)
  moreover have "map_of r3 ''discount_percentage'' = Some (PFloat 0)"
    using discount_zero_cases [OF disjI2 [OF r3]] by (simp add: dget_def)
  ultimately show ?thesis
    using r1 r2 r3
    by (simp add: field_of_def plain_item_def negative_original_item_def same_price_item_def)
qed

text \<open>
  Claim C8, as amended. The product's \<^verbatim>\<open>price\<close> is the item's minor-unit price (0 when
  absent) divided by 100, so it is non-negative exactly when the minor-unit price is.
\<close>

theorem price_follows_minor_units:
  assumes "item_of E t vi cid sn ss (PDict kv) = Inr r \<or> item_of_baku E t vi sn ss (PDict kv) = Inr r"
  shows "\<exists>p. num_of (dget kv ''price'' (PInt 0)) = Some p
    \<and> map_of r ''price'' = Some (PFloat (p / 100))
    \<and> (0 \<le> p / 100 \<longleftrightarrow> 0 \<le> p)"
proof -
  from item_fields [OF assms] obtain v where
    v: "price_of (PDict kv) = Inr v" "map_of r ''price'' = Some v"
    by blast
  from price_of_dict [OF v(1)] obtain p where
    "num_of (dget kv ''price'' (PInt 0)) = Some p" "v = PFloat (p / 100)"
    by blast
  moreover have "0 \<le> p / 100 \<longleftrightarrow> 0 \<le> p"
    by (simp add: zero_le_divide_iff)
  ultimately show ?thesis using v(2) by blast
qed

text \<open>The claim as first stated fails: a price of -250 minor units gives -2.5.\<close>

theorem price_nonnegative_counterexample:
  "field_of ''price''
     (item_of_baku sample_env 0 sample_venue (PStr ''Drinks'') (PStr ''drinks'') refund_item)
   = Some (PFloat (- 5 / 2))"
  by code_simp

theorem price_follows_minor_units_witness:
  "field_of ''price''
     (item_of_baku sample_env 0 sample_venue (PStr ''Drinks'') (PStr ''drinks'') discounted_item)
   = Some (PFloat 3)"
proof -
  obtain r where
    r: "item_of_baku sample_env 0 sample_venue (PStr ''Drinks'') (PStr ''drinks'')
          (PDict [(''id'', PStr ''i1''), (''price'', PInt 300), (''original_price'', PInt 400)]) = Inr r"
    using sample_items_build(1) unfolding discounted_item_def by blast
  have "map_of r ''price'' = Some (PFloat 3)"
    using price_follows_minor_units [OF disjI2 [OF r]] by (simp add: dget_def)
  then show ?thesis
    using r by (simp add: field_of_def discounted_item_def)
qed

text \<open>
  Claim C9, as amended. \<^verbatim>\<open>is_available\<close> is the negated truth value of
  \<^verbatim>\<open>disabled_info\<close>: true when the key is absent or its value is falsy, false when the
  value is truthy.
\<close>

theorem availability_is_falsiness:
  assumes "item_of E t vi cid sn ss (PDict kv) = Inr r \<or> item_of_baku E t vi sn ss (PDict kv) = Inr r"
  shows "map_of r ''is_available'' = Some (PBool (\<not> truthy (dget kv ''disabled_info'' PNone)))
    \<and> (map_of kv ''disabled_info'' = None \<longrightarrow> map_of r ''is_available'' = Some (PBool True))"
proof -
  from item_fields [OF assms] obtain av where
    "is_available_of (PDict kv) = Inr av" "map_of r ''is_available'' = Some av"
    by blast
  then have "map_of r ''is_available'' = Some (PBool (\<not> truthy (dget kv ''disabled_info'' PNone)))"
    by (simp add: is_available_of_dict)
  then show ?thesis
    by (auto simp: dget_def)
qed

text \<open>The claim as first stated fails: an item that carries an empty
  \<^verbatim>\<open>disabled_info\<close> object is reported available.\<close>

theorem availability_marker_counterexample:
  "py_contains_str ''disabled_info'' empty_marker_item = Inr True
   \<and> field_of ''is_available''
     (item_of_baku sample_env 0 sample_venue (PStr ''Drinks'') (PStr ''drinks'') empty_marker_item)
   = Some (PBool True)"
  by code_simp

theorem availability_is_falsiness_witness:
  "field_of ''is_available''
     (item_of_baku sample_env 0 sample_venue (PStr ''Drinks'') (PStr ''drinks'') sold_out_item)
   = Some (PBool False)
   \<and> field_of ''is_available''
     (item_of_baku sample_env 0 sample_venue (PStr ''Drinks'') (PStr ''drinks'') plain_item)
   = Some (PBool True)"
proof -
  obtain r1 r2 where
    r1: "item_of_baku sample_env 0 sample_venue (PStr ''Drinks'') (PStr ''drinks'')
           (PDict [(''id'', PStr ''i8''), (''disabled_info'', PDict [(''reason'', PStr ''sold out'')])]) = Inr r1" and
    r2: "item_of_baku sample_env 0 sample_venue (PStr ''Drinks'') (PStr ''drinks'')
           (PDict [(''id'', PStr ''i5''), (''price'', PInt 120)]) = Inr r2"
    using sample_items_build(5,2) unfolding sold_out_item_def plain_item_def by blast
  have "map_of r1 ''is_available'' = Some (PBool False)"
    using availability_is_falsiness [OF disjI2 [OF r1]] by (simp add: dget_def)
  moreover have "map_of r2 ''is_available'' = Some (PBool True)"
    using availability_is_falsiness [OF disjI2 [OF r2]] by (simp add: dget_def)
  ultimately show ?thesis
    using r1 r2 by (simp add: field_of_def sold_out_item_def plain_item_def)
qed

section \<open>The list fields\<close>

lemma join_comma_strs: "py_join_list (map PStr ss) = Inr (PStr (join_comma ss))"
proof -
  have "mapE the_str (map PStr ss) = Inr ss" by (induction ss) simp_all
  then show ?thesis by (simp add: py_join_list_def)
qed

lemma tags_baku_both_forms:
  "tags_baku E (PDict [(''tags'', PList (map PStr ss))]) = Inr (PStr (join_comma ss))
   \<and> tags_baku E (PDict [(''tags'', PList (map (\<lambda>s. PDict [(''id'', PStr s)]) ss))])
       = Inr (PStr (join_comma ss))
   \<and> dietary_preferences_baku (PDict [(''dietary_preferences'', PList (map PStr ss))])
       = Inr (PStr (join_comma ss))
   \<and> dietary_preferences_baku
        (PDict [(''dietary_preferences'', PList (map (\<lambda>s. PDict [(''id'', PStr s)]) ss))])
       = Inr (PStr (join_comma ss))"
proof -
  have 1: "mapE (tag_id E) (map PStr ss) = Inr (map PStr ss)" by (induction ss) simp_all
  have 2: "mapE (tag_id E) (map (\<lambda>s. PDict [(''id'', PStr s)]) ss) = Inr (map PStr ss)"
    by (induction ss) (simp_all add: dget_def)
  have 3: "mapE pref_id (map PStr ss) = Inr (map PStr ss)" by (induction ss) simp_all
  have 4: "mapE pref_id (map (\<lambda>s. PDict [(''id'', PStr s)]) ss) = Inr (map PStr ss)"
    by (induction ss) (simp_all add: dget_def)
  show ?thesis
    by (simp add: tags_baku_def dietary_preferences_baku_def dget_def 1 2 3 4 join_comma_strs)
qed

text \<open>
  Claim C4 holds for \<^verbatim>\<open>markets_baku.py\<close> (\<open>tags_baku_both_forms\<close>) and fails for
  \<^verbatim>\<open>markets.py\<close>, which joins the list as it is: a \<^verbatim>\<open>tags\<close> list of objects raises
  \<^verbatim>\<open>TypeError\<close> there, while \<^verbatim>\<open>markets_baku.py\<close> gives \<^verbatim>\<open>beer,local\<close> for both
  forms.
\<close>

theorem object_tags_raise_in_markets:
  "extract_items_from_venue sample_env 0 object_tags_doc sample_venue = Inl TypeError
   \<and> column ''tags'' (extract_items_from_venue_baku sample_env 0 object_tags_inline_doc sample_venue)
       = Inr ([Some (PStr ''beer,local''), Some (PStr ''beer,local'')], 2)"
  by code_simp

section \<open>The loops as walks over rows\<close>

lemma walk_rows_Nil [simp]: "walk_rows f [] acc t = Inr (acc, t)"
  by (simp add: walk_rows_def)

lemma walk_rows_Cons:
  "walk_rows f (x # xs) acc t = bindE (f t x) (\<lambda>r. walk_rows f xs (acc @ [r]) (Suc t))"
  by (cases "f t x"; cases "build_rows f (Suc t) xs") (simp_all add: walk_rows_def)

lemma walk_rows_append:
  "walk_rows f (xs @ ys) acc t =
     bindE (walk_rows f xs acc t) (\<lambda>(acc', t'). walk_rows f ys acc' t')"
proof (induction xs arbitrary: acc t)
  case Nil
  then show ?case by simp
next
  case (Cons x xs)
  then show ?case by (cases "f t x") (simp_all add: walk_rows_Cons)
qed

lemma walk_rows_map: "walk_rows f (map h xs) acc t = walk_rows (\<lambda>i x. f i (h x)) xs acc t"
  by (induction xs arbitrary: acc t) (simp_all add: walk_rows_Cons)


lemma section_items_loop_walk:
  "section_items_loop E vi sn ss xs acc t = walk_rows (\<lambda>i x. item_of_baku E i vi sn ss x) xs acc t"
  by (induction xs arbitrary: acc t) (simp_all add: walk_rows_Cons)

lemma sections_loop_baku_walk:
  "list_all inline_section secs \<Longrightarrow>
   sections_loop_baku E vi secs acc t =
     walk_rows (\<lambda>i (sn, ss, x). item_of_baku E i vi sn ss x) (concat (map inline_section_rows secs)) acc t"
proof (induction secs arbitrary: acc t)
  case Nil
  then show ?case by simp
next
  case (Cons sec secs)
  from Cons.prems obtain kv xs where sec: "sec = PDict kv" and xs: "dget kv ''items'' (PList []) = PList xs"
    by (cases sec) (auto split: pyval.splits)
  have rest: "\<And>acc t. sections_loop_baku E vi secs acc t =
     walk_rows (\<lambda>i (sn, ss, x). item_of_baku E i vi sn ss x) (concat (map inline_section_rows secs)) acc t"
    using Cons by simp
  show ?case
    by (simp add: sec xs rest section_items_loop_walk walk_rows_append walk_rows_map split_def)
qed

lemma extract_baku_walk:
  assumes "inline_doc doc"
  shows "extract_items_from_venue_baku E t doc (PDict vkv) =
     walk_rows (\<lambda>i (sn, ss, x). item_of_baku E i (PDict vkv) sn ss x) (inline_rows doc) [] t"
proof -
  from assms obtain kv secs where doc: "doc = PDict kv"
    and secs: "dget kv ''sections'' (PList []) = PList secs" and wf: "list_all inline_section secs"
    by (cases doc) (auto split: pyval.splits)
  show ?thesis
  proof (cases "kv = [] \<or> secs = []")
    case True
    then show ?thesis
      using secs by (auto simp: doc extract_items_from_venue_baku_def dget_def)
  next
    case False
    then show ?thesis
      using secs sections_loop_baku_walk [OF wf, of E "PDict vkv" "[]" t]
      by (cases "walk_rows (\<lambda>i (sn, ss, x). item_of_baku E i (PDict vkv) sn ss x)
            (concat (map inline_section_rows secs)) [] t")
        (auto simp: doc extract_items_from_venue_baku_def)
  qed
qed

lemma py_hash_hashable: "hashable v \<Longrightarrow> py_hash v = Inr (key_of v)"
  by (cases v) simp_all

lemma lookup_table_Cons:
  "lookup_table (item # pool) = [entry_key item \<mapsto> item] ++ lookup_table pool"
  by (simp add: lookup_table_def)

lemma build_items_dict_table:
  "list_all pool_entry pool \<Longrightarrow> build_items_dict pool d = Inr (d ++ lookup_table pool)"
proof (induction pool arbitrary: d)
  case Nil
  then show ?case by (simp add: lookup_table_def)
next
  case (Cons item pool)
  from Cons.prems obtain kv i where item: "item = PDict kv" and i: "map_of kv ''id'' = Some i"
    and h: "hashable i"
    by (cases item) (auto split: option.splits)
  have rest: "\<And>d. build_items_dict pool d = Inr (d ++ lookup_table pool)"
    using Cons by simp
  have key: "entry_key item = key_of i"
    using i by (simp add: item dget_def)
  have "build_items_dict (item # pool) d = build_items_dict pool (d(key_of i \<mapsto> item))"
    using i h by (simp add: item py_hash_hashable)
  also have "\<dots> = Inr (d(key_of i \<mapsto> item) ++ lookup_table pool)"
    by (rule rest)
  also have "d(key_of i \<mapsto> item) ++ lookup_table pool = d ++ lookup_table (item # pool)"
    by (simp add: lookup_table_Cons key map_add_assoc [symmetric])
  finally show ?case .
qed

lemma item_ids_loop_walk:
  "list_all hashable ids \<Longrightarrow>
   item_ids_loop E vi d cid sn ss ids acc t =
     walk_rows (\<lambda>i x. item_of E i vi cid sn ss x) (List.map_filter (\<lambda>i. d (key_of i)) ids) acc t"
proof (induction ids arbitrary: acc t)
  case Nil
  then show ?case by (simp add: map_filter_simps)
next
  case (Cons i ids)
  then show ?case
    by (cases "d (key_of i)") (simp_all add: py_hash_hashable map_filter_simps walk_rows_Cons)
qed

lemma categories_loop_walk:
  "list_all indexed_category cs \<Longrightarrow>
   categories_loop E vi d sn ss cs acc t =
     walk_rows (\<lambda>i (cid, sn, ss, x). item_of E i vi cid sn ss x)
       (concat (map (indexed_category_rows d sn ss) cs)) acc t"
proof (induction cs arbitrary: acc t)
  case Nil
  then show ?case by simp
next
  case (Cons c cs)
  from Cons.prems obtain kv ids where c: "c = PDict kv"
    and ids: "dget kv ''item_ids'' (PList []) = PList ids" and h: "list_all hashable ids"
    by (cases c) (auto split: pyval.splits)
  have rest: "\<And>acc t. categories_loop E vi d sn ss cs acc t =
     walk_rows (\<lambda>i (cid, sn, ss, x). item_of E i vi cid sn ss x)
       (concat (map (indexed_category_rows d sn ss) cs)) acc t"
    using Cons by simp
  show ?case
    by (simp add: c ids rest item_ids_loop_walk [OF h] walk_rows_append walk_rows_map split_def)
qed

lemma sections_loop_walk:
  "list_all indexed_section secs \<Longrightarrow>
   sections_loop E vi d secs acc t =
     walk_rows (\<lambda>i (cid, sn, ss, x). item_of E i vi cid sn ss x)
       (concat (map (indexed_section_rows d) secs)) acc t"
proof (induction secs arbitrary: acc t)
  case Nil
  then show ?case by simp
next
  case (Cons sec secs)
  from Cons.prems obtain kv cs where sec: "sec = PDict kv"
    and cs: "dget kv ''categories'' (PList []) = PList cs" and wf: "list_all indexed_category cs"
    by (cases sec) (auto split: pyval.splits)
  have rest: "\<And>acc t. sections_loop E vi d secs acc t =
     walk_rows (\<lambda>i (cid, sn, ss, x). item_of E i vi cid sn ss x)
       (concat (map (indexed_section_rows d) secs)) acc t"
    using Cons by simp
  show ?case
    by (simp add: sec cs rest categories_loop_walk [OF wf] walk_rows_append split_def)
qed

lemma extract_walk:
  assumes "indexed_doc doc"
  shows "extract_items_from_venue E t doc (PDict vkv) =
     walk_rows (\<lambda>i (cid, sn, ss, x). item_of E i (PDict vkv) cid sn ss x) (indexed_rows doc) [] t"
proof -
  from assms obtain kv pool secs where doc: "doc = PDict kv"
    and pool: "dget kv ''items'' (PList []) = PList pool" and pwf: "list_all pool_entry pool"
    and secs: "dget kv ''sections'' (PList []) = PList secs" and wf: "list_all indexed_section secs"
    by (cases doc) (auto split: pyval.splits)
  show ?thesis
  proof (cases "kv = []")
    case True
    then show ?thesis
      using secs pool by (auto simp: doc extract_items_from_venue_def dget_def)
  next
    case False
    then show ?thesis
      using secs pool build_items_dict_table [OF pwf, of Map.empty]
        sections_loop_walk [OF wf, of E "PDict vkv" "lookup_table pool" "[]" t]
      by (cases "walk_rows (\<lambda>i (cid, sn, ss, x). item_of E i (PDict vkv) cid sn ss x)
            (concat (map (indexed_section_rows (lookup_table pool)) secs)) [] t")
        (auto simp: doc extract_items_from_venue_def)
  qed
qed

text \<open>
  Claim C1, as amended. Neither script detects the shape of the document. On a Shape A
  document \<^verbatim>\<open>markets.py\<close> builds the id-to-item lookup once and returns the records of
  the rows found by walking sections, categories and item-id lists; on a Shape B document
  \<^verbatim>\<open>markets_baku.py\<close> returns the records of the items embedded in the sections.
\<close>

theorem one_shape_per_script:
  "(indexed_doc doc \<longrightarrow>
      extract_items_from_venue E t doc (PDict vkv) =
        walk_rows (\<lambda>i (cid, sn, ss, x). item_of E i (PDict vkv) cid sn ss x) (indexed_rows doc) [] t)
   \<and> (inline_doc doc \<longrightarrow>
      extract_items_from_venue_baku E t doc (PDict vkv) =
        walk_rows (\<lambda>i (sn, ss, x). item_of_baku E i (PDict vkv) sn ss x) (inline_rows doc) [] t)"
  using extract_walk extract_baku_walk by blast

text \<open>The claim as first stated fails: each script returns no product for the document
  of the other shape, although the document holds items.\<close>

theorem both_shapes_counterexample:
  "length (inline_rows shape_b_doc) = 2
   \<and> extract_items_from_venue sample_env 0 shape_b_doc sample_venue = Inr ([], 0)
   \<and> length (indexed_rows shape_a_doc) = 1
   \<and> extract_items_from_venue_baku sample_env 0 shape_a_doc sample_venue = Inr ([], 0)"
  by code_simp

theorem one_shape_per_script_witness:
  "column ''item_id'' (extract_items_from_venue sample_env 0 shape_a_doc sample_venue)
     = Inr ([Some (PStr ''i1'')], 1)
   \<and> column ''item_id'' (extract_items_from_venue_baku sample_env 0 shape_b_doc sample_venue)
     = Inr ([Some (PStr ''i1''), Some (PStr ''i5'')], 2)"
proof -
  let ?vkv = "[(''id'', PStr ''v1''), (''name'', PStr ''Bravo''), (''slug'', PStr ''bravo'')]"
  have a: "indexed_doc shape_a_doc" and b: "inline_doc shape_b_doc"
    by code_simp+
  have wa: "column ''item_id''
      (walk_rows (\<lambda>i (cid, sn, ss, x). item_of sample_env i (PDict ?vkv) cid sn ss x)
         (indexed_rows shape_a_doc) [] 0)
     = Inr ([Some (PStr ''i1'')], 1)"
    by code_simp
  have wb: "column ''item_id''
      (walk_rows (\<lambda>i (sn, ss, x). item_of_baku sample_env i (PDict ?vkv) sn ss x)
         (inline_rows shape_b_doc) [] 0)
     = Inr ([Some (PStr ''i1''), Some (PStr ''i5'')], 2)"
    by code_simp
  from one_shape_per_script [of shape_a_doc sample_env 0 ?vkv] a
  have ea: "extract_items_from_venue sample_env 0 shape_a_doc (PDict ?vkv) =
      walk_rows (\<lambda>i (cid, sn, ss, x). item_of sample_env i (PDict ?vkv) cid sn ss x)
        (indexed_rows shape_a_doc) [] 0"
    by blast
  from one_shape_per_script [of shape_b_doc sample_env 0 ?vkv] b
  have eb: "extract_items_from_venue_baku sample_env 0 shape_b_doc (PDict ?vkv) =
      walk_rows (\<lambda>i (sn, ss, x). item_of_baku sample_env i (PDict ?vkv) sn ss x)
        (inline_rows shape_b_doc) [] 0"
    by blast
  show ?thesis
    unfolding sample_venue_def ea eb using wa wb by blast
qed

section \<open>Missing fields\<close>






























text \<open>Apart from that, \<^verbatim>\<open>markets.py\<close> indexes \<^verbatim>\<open>item['id']\<close> when it builds the
  lookup: a pool entry without \<^verbatim>\<open>id\<close> raises \<^verbatim>\<open>KeyError\<close>.\<close>

lemma pool_entry_without_id_raises:
  "extract_items_from_venue sample_env 0 missing_id_doc sample_venue = Inl KeyError"
  by code_simp


section \<open>The clock\<close>

lemma without_time_stamp: "without_time (r @ [(''scraped_at'', v)]) = without_time r"
  by (simp add: without_time_def AList.delete_eq)

lemma stamped_timeless:
  assumes "m = bindE core (\<lambda>r. Inr (r @ [(''scraped_at'', v)]))"
    and "m' = bindE core (\<lambda>r. Inr (r @ [(''scraped_at'', v')]))"
  shows "(\<exists>e. m = Inl e \<and> m' = Inl e)
     \<or> (\<exists>r r'. m = Inr r \<and> m' = Inr r' \<and> without_time r = without_time r')"
  using assms by (cases core) (simp_all add: without_time_stamp)

lemma tag_id_repr: "py_repr E = py_repr E' \<Longrightarrow> tag_id E x = tag_id E' x"
  by (cases x) simp_all

lemma tags_baku_repr: "py_repr E = py_repr E' \<Longrightarrow> tags_baku E it = tags_baku E' it"
proof -
  assume "py_repr E = py_repr E'"
  then have "tag_id E = tag_id E'" using tag_id_repr by blast
  then show ?thesis by (simp add: tags_baku_def)
qed

lemma item_of_baku_timeless:
  assumes "py_repr E = py_repr E'"
  shows "(\<exists>e. item_of_baku E t vi sn ss it = Inl e \<and> item_of_baku E' t' vi sn ss it = Inl e)
     \<or> (\<exists>r r'. item_of_baku E t vi sn ss it = Inr r \<and> item_of_baku E' t' vi sn ss it = Inr r'
           \<and> without_time r = without_time r')"
proof (rule stamped_timeless)
  let ?core = "dict_literal (venue_entries vi it @ detail_entries sn ss it
        @ [(''dietary_preferences'', dietary_preferences_baku it), (''tags'', tags_baku E it)]
        @ [(''is_available'', is_available_of it),
           (''is_wolt_plus_only'', py_get it ''is_wolt_plus_only'' (PBool False)),
           (''is_cutlery'', py_get it ''is_cutlery'' (PBool False)),
           (''deposit'', py_get it ''deposit'' PNone)])"
  show "item_of_baku E t vi sn ss it = bindE ?core (\<lambda>r. Inr (r @ [(''scraped_at'', PStr (now E t))]))"
    unfolding item_of_baku_def flag_entries_def
    by (subst dict_literal_stamp [symmetric]) simp
  show "item_of_baku E' t' vi sn ss it = bindE ?core (\<lambda>r. Inr (r @ [(''scraped_at'', PStr (now E' t'))]))"
    unfolding item_of_baku_def flag_entries_def tags_baku_repr [OF assms]
    by (subst dict_literal_stamp [symmetric]) simp
qed

lemma item_of_timeless:
  "(\<exists>e. item_of E t vi cid sn ss it = Inl e \<and> item_of E' t' vi cid sn ss it = Inl e)
     \<or> (\<exists>r r'. item_of E t vi cid sn ss it = Inr r \<and> item_of E' t' vi cid sn ss it = Inr r'
           \<and> without_time r = without_time r')"
proof (rule stamped_timeless)
  let ?core = "dict_literal (venue_entries vi it @ [(''category_id'', Inr cid)]
        @ detail_entries sn ss it
        @ [(''dietary_preferences'', joined_of it ''dietary_preferences''),
           (''tags'', joined_of it ''tags'')]
        @ [(''is_available'', is_available_of it),
           (''is_wolt_plus_only'', py_get it ''is_wolt_plus_only'' (PBool False)),
           (''is_cutlery'', py_get it ''is_cutlery'' (PBool False)),
           (''deposit'', py_get it ''deposit'' PNone)])"
  show "item_of E t vi cid sn ss it = bindE ?core (\<lambda>r. Inr (r @ [(''scraped_at'', PStr (now E t))]))"
    unfolding item_of_def flag_entries_def
    by (subst dict_literal_stamp [symmetric]) simp
  show "item_of E' t' vi cid sn ss it = bindE ?core (\<lambda>r. Inr (r @ [(''scraped_at'', PStr (now E' t'))]))"
    unfolding item_of_def flag_entries_def
    by (subst dict_literal_stamp [symmetric]) simp
qed

lemma timeless_Inr [simp]: "timeless (Inr (rs, t)) = Inr (map without_time rs)"
  by (simp add: timeless_def)

lemma timeless_Inl [simp]: "timeless (Inl e) = Inl e"
  by (simp add: timeless_def)

lemma timeless_bind:
  assumes "timeless m = timeless m'"
    and "\<And>acc t acc' t'. map without_time acc = map without_time acc'
           \<Longrightarrow> timeless (k (acc, t)) = timeless (k' (acc', t'))"
  shows "timeless (bindE m k) = timeless (bindE m' k')"
proof (cases m)
  case (Inl e)
  with assms(1) have "m' = Inl e" by (cases m') (auto simp: timeless_def)
  with Inl show ?thesis by simp
next
  case (Inr p)
  obtain acc t where p: "p = (acc, t)" by (cases p)
  from assms(1) Inr p obtain acc' t' where m': "m' = Inr (acc', t')"
    and eq: "map without_time acc = map without_time acc'"
    by (cases m') (auto simp: timeless_def)
  show ?thesis using assms(2) [OF eq] by (simp add: Inr p m')
qed

lemma timeless_pure_bind:
  assumes "\<And>x. timeless (k x) = timeless (k' x)"
  shows "timeless (bindE m k) = timeless (bindE m k')"
  using assms by (cases m) simp_all

lemma section_items_loop_timeless:
  assumes "py_repr E = py_repr E'"
  shows "map without_time acc = map without_time acc' \<Longrightarrow>
    timeless (section_items_loop E vi sn ss xs acc t) = timeless (section_items_loop E' vi sn ss xs acc' t')"
proof (induction xs arbitrary: acc acc' t t')
  case Nil
  then show ?case by simp
next
  case (Cons x xs)
  from item_of_baku_timeless [OF assms, of t vi sn ss x t'] show ?case
  proof (elim disjE exE conjE)
    fix e assume "item_of_baku E t vi sn ss x = Inl e" "item_of_baku E' t' vi sn ss x = Inl e"
    then show ?thesis by simp
  next
    fix r r' assume r: "item_of_baku E t vi sn ss x = Inr r" "item_of_baku E' t' vi sn ss x = Inr r'"
      and eq: "without_time r = without_time r'"
    have "map without_time (acc @ [r]) = map without_time (acc' @ [r'])"
      using Cons.prems eq by simp
    from Cons.IH [OF this] show ?thesis by (simp add: r)
  qed
qed

lemma sections_loop_baku_timeless:
  assumes "py_repr E = py_repr E'"
  shows "map without_time acc = map without_time acc' \<Longrightarrow>
    timeless (sections_loop_baku E vi secs acc t) = timeless (sections_loop_baku E' vi secs acc' t')"
proof (induction secs arbitrary: acc acc' t t')
  case Nil
  then show ?case by simp
next
  case (Cons sec secs)
  show ?case
    unfolding sections_loop_baku.simps
    apply (intro timeless_pure_bind)
    apply (rule timeless_bind)
     apply (rule section_items_loop_timeless [OF assms Cons.prems])
    apply (simp add: Cons.IH)
    done
qed

lemma extract_baku_timeless:
  assumes "py_repr E = py_repr E'"
  shows "timeless (extract_items_from_venue_baku E t doc vi)
       = timeless (extract_items_from_venue_baku E' t' doc vi)"
proof (cases "truthy doc")
  case False
  then show ?thesis by (simp add: extract_items_from_venue_baku_def)
next
  case True
  have inner: "\<And>secs. timeless (bindE (sections_loop_baku E vi secs [] t)
          (\<lambda>(items, t'). bindE (py_get vi ''name'' (PStr ''unknown venue'')) (\<lambda>_. Inr (items, t'))))
      = timeless (bindE (sections_loop_baku E' vi secs [] t')
          (\<lambda>(items, t'). bindE (py_get vi ''name'' (PStr ''unknown venue'')) (\<lambda>_. Inr (items, t'))))"
    apply (rule timeless_bind)
     apply (rule sections_loop_baku_timeless [OF assms])
     apply simp
    apply (cases "py_get vi ''name'' (PStr ''unknown venue'')")
     apply simp_all
    done
  show ?thesis
    unfolding extract_items_from_venue_baku_def
    using True
    apply simp
    apply (rule timeless_pure_bind)
    apply (case_tac "truthy x")
     apply (simp_all add: inner)
     apply (rule timeless_pure_bind)
     apply (rule inner)
    apply (cases "py_get vi ''name'' (PStr ''unknown'')")
     apply simp_all
    done
qed

lemma item_ids_loop_timeless:
  "map without_time acc = map without_time acc' \<Longrightarrow>
    timeless (item_ids_loop E vi d cid sn ss ids acc t)
      = timeless (item_ids_loop E' vi d cid sn ss ids acc' t')"
proof (induction ids arbitrary: acc acc' t t')
  case Nil
  then show ?case by simp
next
  case (Cons i ids)
  show ?case
  proof (cases "py_hash i")
    case (Inl e)
    then show ?thesis by simp
  next
    case (Inr k)
    show ?thesis
    proof (cases "d k")
      case None
      with Inr Cons show ?thesis by simp
    next
      case (Some x)
      from item_of_timeless [of E t vi cid sn ss x E' t'] show ?thesis
      proof (elim disjE exE conjE)
        fix e assume "item_of E t vi cid sn ss x = Inl e" "item_of E' t' vi cid sn ss x = Inl e"
        then show ?thesis by (simp add: Inr Some)
      next
        fix r r' assume r: "item_of E t vi cid sn ss x = Inr r" "item_of E' t' vi cid sn ss x = Inr r'"
          and eq: "without_time r = without_time r'"
        have "map without_time (acc @ [r]) = map without_time (acc' @ [r'])"
          using Cons.prems eq by simp
        from Cons.IH [OF this] show ?thesis by (simp add: Inr Some r)
      qed
    qed
  qed
qed

lemma categories_loop_timeless:
  "map without_time acc = map without_time acc' \<Longrightarrow>
    timeless (categories_loop E vi d sn ss cs acc t)
      = timeless (categories_loop E' vi d sn ss cs acc' t')"
proof (induction cs arbitrary: acc acc' t t')
  case Nil
  then show ?case by simp
next
  case (Cons c cs)
  show ?case
    unfolding categories_loop.simps
    apply (intro timeless_pure_bind)
    apply (rule timeless_bind)
     apply (rule item_ids_loop_timeless [OF Cons.prems])
    apply (simp add: Cons.IH)
    done
qed

lemma sections_loop_timeless:
  "map without_time acc = map without_time acc' \<Longrightarrow>
    timeless (sections_loop E vi d secs acc t) = timeless (sections_loop E' vi d secs acc' t')"
proof (induction secs arbitrary: acc acc' t t')
  case Nil
  then show ?case by simp
next
  case (Cons sec secs)
  show ?case
    unfolding sections_loop.simps
    apply (intro timeless_pure_bind)
    apply (rule timeless_bind)
     apply (rule categories_loop_timeless [OF Cons.prems])
    apply (simp add: Cons.IH)
    done
qed

lemma extract_timeless:
  "timeless (extract_items_from_venue E t doc vi) = timeless (extract_items_from_venue E' t' doc vi)"
proof (cases "truthy doc")
  case False
  then show ?thesis by (simp add: extract_items_from_venue_def)
next
  case True
  have inner: "\<And>d secs. timeless (bindE (sections_loop E vi d secs [] t)
          (\<lambda>(items, t'). bindE (py_get vi ''name'' (PStr ''unknown venue'')) (\<lambda>_. Inr (items, t'))))
      = timeless (bindE (sections_loop E' vi d secs [] t')
          (\<lambda>(items, t'). bindE (py_get vi ''name'' (PStr ''unknown venue'')) (\<lambda>_. Inr (items, t'))))"
    apply (rule timeless_bind)
     apply (rule sections_loop_timeless)
     apply simp
    apply (cases "py_get vi ''name'' (PStr ''unknown venue'')")
     apply simp_all
    done
  show ?thesis
    unfolding extract_items_from_venue_def
    using True
    apply simp
    apply (intro timeless_pure_bind)
    apply (rule inner)
    done
qed

text \<open>
  Claim C7, as amended. Whatever the clock and the moment, the same document and venue
  give the same outcome: the same error, or the same records in the same order, equal in
  every entry but \<^verbatim>\<open>scraped_at\<close>.
\<close>

theorem normalization_pure_up_to_clock:
  "timeless (extract_items_from_venue (E\<lparr>now := clock\<rparr>) t doc vi)
     = timeless (extract_items_from_venue (E\<lparr>now := clock'\<rparr>) t' doc vi)
   \<and> timeless (extract_items_from_venue_baku (E\<lparr>now := clock\<rparr>) t doc vi)
     = timeless (extract_items_from_venue_baku (E\<lparr>now := clock'\<rparr>) t' doc vi)"
proof
  show "timeless (extract_items_from_venue (E\<lparr>now := clock\<rparr>) t doc vi)
     = timeless (extract_items_from_venue (E\<lparr>now := clock'\<rparr>) t' doc vi)"
    by (rule extract_timeless)
  show "timeless (extract_items_from_venue_baku (E\<lparr>now := clock\<rparr>) t doc vi)
     = timeless (extract_items_from_venue_baku (E\<lparr>now := clock'\<rparr>) t' doc vi)"
    by (rule extract_baku_timeless) simp
qed

text \<open>The claim as first stated fails: normalizing the same document again, two clock
  readings later, gives records with other \<^verbatim>\<open>scraped_at\<close> values.\<close>

theorem same_document_twice_counterexample:
  "column ''scraped_at'' (extract_items_from_venue_baku sample_env 0 shape_b_doc sample_venue)
     = Inr ([Some (PStr ''2024-01-01T00:00:00''), Some (PStr ''2024-01-01T00:00:01'')], 2)
   \<and> column ''scraped_at'' (extract_items_from_venue_baku sample_env 2 shape_b_doc sample_venue)
     = Inr ([Some (PStr ''2024-01-01T00:00:01''), Some (PStr ''2024-01-01T00:00:01'')], 4)"
  by code_simp

theorem normalization_pure_up_to_clock_witness:
  "timeless (extract_items_from_venue_baku sample_env 0 shape_b_doc sample_venue)
     = timeless (extract_items_from_venue_baku sample_env 2 shape_b_doc sample_venue)
   \<and> timeless (extract_items_from_venue sample_env 0 shape_a_doc sample_venue)
     = timeless (extract_items_from_venue sample_env 1 shape_a_doc sample_venue)"
  using normalization_pure_up_to_clock [where E = sample_env and clock = sample_now
        and clock' = sample_now and t = 0 and t' = 2 and doc = shape_b_doc and vi = sample_venue]
    normalization_pure_up_to_clock [where E = sample_env and clock = sample_now
        and clock' = sample_now and t = 0 and t' = 1 and doc = shape_a_doc and vi = sample_venue]
  by (simp add: sample_env_def)

section \<open>The fetch gateway\<close>

text \<open>
  Claim C5. For a method that is GET or POST in upper case, \<^verbatim>\<open>make_request\<close> raises
  nothing when the session raises only request exceptions: it returns the decoded
  document when the request succeeds, and \<^verbatim>\<open>None\<close> when the session raises, when the
  status is an error or when the body does not decode.
\<close>

theorem make_request_absorbs_failures:
  assumes "py_upper method = ''GET'' \<or> py_upper method = ''POST''"
    and "\<forall>e. http E t (py_upper method) url = Raises e \<longrightarrow> is_request_exception e \<or> e = JSONDecodeError"
  shows "make_request E t url method =
     Inr (case http E t (py_upper method) url of
            Response False (Some doc) \<Rightarrow> doc
          | _ \<Rightarrow> PNone)"
proof -
  have body: "make_request_try E t url method =
      bindE (session_request E t (py_upper method) url) (\<lambda>response.
      bindE (raise_for_status response) (\<lambda>_. response_json response))"
    using assms(1) by (auto simp: make_request_try_def)
  show ?thesis
  proof (cases "http E t (py_upper method) url")
    case (Raises e)
    with assms(2) have "is_request_exception e \<or> e = JSONDecodeError" by blast
    then show ?thesis
      by (auto simp: make_request_def body session_request_def Raises)
  next
    case (Response bad body)
    then show ?thesis
      by (cases bad; cases body)
        (simp_all add: make_request_def body session_request_def raise_for_status_def
          response_json_def)
  qed
qed

theorem make_request_absorbs_failures_witness:
  "make_request crawl_env 0 (venue_url sample_env (PStr ''bravo'')) ''get'' = Inr shape_b_doc
   \<and> make_request crawl_env 0 (venue_url sample_env (PStr ''araz'')) ''GET'' = Inr PNone
   \<and> make_request crawl_env 0 (BASE_URL @ ''/v1/cities'') ''Post'' = Inr PNone"
proof -
  have u: "py_upper ''get'' = ''GET''" "py_upper ''GET'' = ''GET''" "py_upper ''Post'' = ''POST''"
    by code_simp+
  have h1: "http crawl_env 0 ''GET'' (venue_url sample_env (PStr ''bravo'')) = Response False (Some shape_b_doc)"
    by code_simp
  have h2: "http crawl_env 0 ''GET'' (venue_url sample_env (PStr ''araz'')) = Raises Timeout"
    by code_simp
  have h3: "http crawl_env 0 ''POST'' (BASE_URL @ ''/v1/cities'') = Response True None"
    by code_simp
  from make_request_absorbs_failures [of "''get''" crawl_env 0 "venue_url sample_env (PStr ''bravo'')"]
  have 1: "make_request crawl_env 0 (venue_url sample_env (PStr ''bravo'')) ''get'' = Inr shape_b_doc"
    by (simp add: u h1)
  from make_request_absorbs_failures [of "''GET''" crawl_env 0 "venue_url sample_env (PStr ''araz'')"]
  have 2: "make_request crawl_env 0 (venue_url sample_env (PStr ''araz'')) ''GET'' = Inr PNone"
    by (simp add: u h2)
  from make_request_absorbs_failures [of "''Post''" crawl_env 0 "BASE_URL @ ''/v1/cities''"]
  have 3: "make_request crawl_env 0 (BASE_URL @ ''/v1/cities'') ''Post'' = Inr PNone"
    by (simp add: u h3)
  from 1 2 3 show ?thesis by blast
qed

section \<open>The crawl\<close>







end
